theory Spec2Isabelle
  imports Main "HOL-Library.Word" "HOL-Library.Char_ord" "HOL-Library.List_Lexorder"
    "HOL-Library.Product_Lexorder" "HOL-Library.Multiset"
begin

section \<open>Values, requests and responses\<close>

text \<open>
  The handlers of \<^verbatim>\<open>function_app.py\<close> work on parsed JSON and on Python
  dictionaries. A JSON value is a \<open>json\<close>; a dictionary keeps its entries as an
  association list, looked up with \<open>map_of\<close>. Python's \<open>None\<close> is \<open>JNull\<close>.
  Numbers are integers (no handler computes with a fraction).
\<close>

datatype json =
    JNull
  | JBool bool
  | JNum int
  | JStr string
  | JArr "json list"
  | JObj "(string \<times> json) list"

type_synonym doc = "(string \<times> json) list"

type_synonym byte = "8 word"

text \<open>The exceptions a handler can meet. \<open>NotFound\<close>, \<open>Conflict\<close> and \<open>ServiceError\<close>
  are raised by the store clients; the others by Python itself.\<close>

datatype exn =
    KeyError
  | AttributeError
  | TypeError
  | NotFound
  | Conflict
  | ServiceError

text \<open>A response body: nothing, a plain text, an f-string (its literal part, then the
  interpolated value), or \<open>json.dumps\<close> of a value.\<close>

datatype body =
    NoBody
  | Text string
  | FText string json
  | Json json

datatype http_response =
  HttpResponse (response_body: body) (status_code: nat) (mimetype: "string option")

record file_storage =
  filename :: string
  content_type :: "string option"
  stream :: "byte list"

text \<open>\<open>json_body\<close> is what \<open>req.get_json()\<close> returns; \<open>None\<close> stands for the
  \<open>ValueError\<close> it raises on a body that is not JSON.\<close>

record http_request =
  form :: "string \<rightharpoonup> string"
  files :: "string \<rightharpoonup> file_storage"
  params :: "string \<rightharpoonup> string"
  json_body :: "json option"

section \<open>The Document Store and the Blob Store\<close>

text \<open>
  The two stores are services outside the repository. A Cosmos container is the list of
  its documents; an item is addressed by its \<open>id\<close> and its partition key, the
  document's \<open>userId\<close>. The Blob Store maps a container name and a blob name to the
  bytes and the content type. Every call that reaches a store is appended to \<open>calls\<close>,
  whether it succeeds or not, so that the order of the calls of a request can be read
  off the state.
\<close>

datatype store_call =
    ReadItem string json json
  | DeleteItem string json json
  | UpsertItem string doc
  | CreateItem string doc
  | QueryItems string "string option" string
  | UploadBlob string string "byte list" "string option"
  | DeleteBlob string string

record store =
  containers :: "string \<Rightarrow> doc list"
  blobs :: "string \<times> string \<rightharpoonup> byte list \<times> string option"
  calls :: "store_call list"

text \<open>
  What a request finds around it: the process environment (\<open>os.environ\<close>), the value
  \<open>str(uuid.uuid4())\<close> yields, the value \<open>datetime.now(timezone.utc).isoformat()\<close>
  yields, and the store calls that fail for a reason of the service (a dependency
  failure), whatever the store holds.
\<close>

record env =
  environ :: "string \<rightharpoonup> string"
  uuid4 :: string
  utcnow_iso :: string
  faults :: "store_call \<Rightarrow> bool"

type_synonym 'a result = "(exn + 'a) \<times> store"

subsection \<open>Python's truthiness, dictionary access and iteration\<close>

fun truthy :: "json \<Rightarrow> bool" where
  "truthy JNull = False"
| "truthy (JBool b) = b"
| "truthy (JNum n) = (n \<noteq> 0)"
| "truthy (JStr s) = (s \<noteq> [])"
| "truthy (JArr xs) = (xs \<noteq> [])"
| "truthy (JObj kvs) = (kvs \<noteq> [])"

text \<open>\<open>not v\<close> for the value of \<open>params.get(k)\<close> or \<open>form.get(k)\<close>: a string or \<open>None\<close>.\<close>

definition py_not :: "string option \<Rightarrow> bool" where
  "py_not v = (case v of None \<Rightarrow> True | Some s \<Rightarrow> s = [])"

text \<open>\<open>not file\<close> for the value of \<open>files.get(k)\<close>: the uploaded part is a werkzeug
  \<open>FileStorage\<close>, whose truth value is that of its filename.\<close>

definition py_not_file :: "file_storage option \<Rightarrow> bool" where
  "py_not_file v = (case v of None \<Rightarrow> True | Some f \<Rightarrow> filename f = [])"

text \<open>\<open>d.get(k, dflt)\<close> and \<open>d[k]\<close> on a dictionary.\<close>

definition dict_get :: "doc \<Rightarrow> string \<Rightarrow> json \<Rightarrow> json" where
  "dict_get d k dflt = (case map_of d k of None \<Rightarrow> dflt | Some v \<Rightarrow> v)"

definition dict_item :: "doc \<Rightarrow> string \<Rightarrow> exn + json" where
  "dict_item d k = (case map_of d k of None \<Rightarrow> Inl KeyError | Some v \<Rightarrow> Inr v)"

text \<open>\<open>body.get(k, dflt)\<close> on the parsed request body: only a JSON object has \<open>get\<close>.\<close>

definition body_get :: "json \<Rightarrow> string \<Rightarrow> json \<Rightarrow> exn + json" where
  "body_get b k dflt = (case b of JObj kvs \<Rightarrow> Inr (dict_get kvs k dflt) | _ \<Rightarrow> Inl AttributeError)"

text \<open>\<open>for m in media\<close>: a list yields its elements, a string its characters, a
  dictionary its keys; a number or a boolean is not iterable.\<close>

fun py_iter :: "json \<Rightarrow> exn + json list" where
  "py_iter (JArr xs) = Inr xs"
| "py_iter (JStr s) = Inr (map (\<lambda>c. JStr [c]) s)"
| "py_iter (JObj kvs) = Inr (map (\<lambda>kv. JStr (fst kv)) kvs)"
| "py_iter _ = Inl TypeError"

definition json_of_opt :: "string option \<Rightarrow> json" where
  "json_of_opt v = (case v of None \<Rightarrow> JNull | Some s \<Rightarrow> JStr s)"

subsection \<open>Store operations\<close>

definition logged :: "store_call \<Rightarrow> store \<Rightarrow> store" where
  "logged c s = s\<lparr>calls := calls s @ [c]\<rparr>"

definition item_matches :: "json \<Rightarrow> json \<Rightarrow> doc \<Rightarrow> bool" where
  "item_matches item pk d = (map_of d ''id'' = Some item \<and> map_of d ''userId'' = Some pk)"

text \<open>\<open>container.read_item(item, partition_key)\<close>: the document with that id in that
  partition, or an exception. The client takes the id as a string.\<close>

definition read_item :: "env \<Rightarrow> string \<Rightarrow> json \<Rightarrow> json \<Rightarrow> store \<Rightarrow> doc result" where
  "read_item e c item pk s =
     (case item of
        JStr i \<Rightarrow>
          (let s' = logged (ReadItem c item pk) s in
           if faults e (ReadItem c item pk) then (Inl ServiceError, s')
           else (case find (item_matches item pk) (containers s c) of
                   None \<Rightarrow> (Inl NotFound, s')
                 | Some d \<Rightarrow> (Inr d, s')))
      | _ \<Rightarrow> (Inl TypeError, s))"

text \<open>\<open>container.delete_item(item, partition_key)\<close>: removes the document, or raises
  when there is none.\<close>

definition delete_item :: "env \<Rightarrow> string \<Rightarrow> json \<Rightarrow> json \<Rightarrow> store \<Rightarrow> unit result" where
  "delete_item e c item pk s =
     (let s' = logged (DeleteItem c item pk) s in
      if faults e (DeleteItem c item pk) then (Inl ServiceError, s')
      else if \<not> list_ex (item_matches item pk) (containers s c) then (Inl NotFound, s')
      else (Inr (),
            s'\<lparr>containers := (containers s)
                 (c := filter (\<lambda>d. \<not> item_matches item pk d) (containers s c))\<rparr>))"

definition same_item :: "doc \<Rightarrow> doc \<Rightarrow> bool" where
  "same_item d d' = (map_of d' ''id'' = map_of d ''id'' \<and> map_of d' ''userId'' = map_of d ''userId'')"

text \<open>\<open>container.upsert_item(doc)\<close>: replaces the document with the same id and
  partition key, or adds it.\<close>

definition upsert_item :: "env \<Rightarrow> string \<Rightarrow> doc \<Rightarrow> store \<Rightarrow> unit result" where
  "upsert_item e c d s =
     (let s' = logged (UpsertItem c d) s in
      if faults e (UpsertItem c d) then (Inl ServiceError, s')
      else (Inr (),
            s'\<lparr>containers := (containers s)
                 (c := filter (\<lambda>d'. \<not> same_item d d') (containers s c) @ [d])\<rparr>))"

text \<open>\<open>container.create_item(body=doc)\<close>: adds the document, or raises when the
  partition already holds one with that id.\<close>

definition create_item :: "env \<Rightarrow> string \<Rightarrow> doc \<Rightarrow> store \<Rightarrow> unit result" where
  "create_item e c d s =
     (let s' = logged (CreateItem c d) s in
      if faults e (CreateItem c d) then (Inl ServiceError, s')
      else if list_ex (same_item d) (containers s c) then (Inl Conflict, s')
      else (Inr (), s'\<lparr>containers := (containers s)(c := containers s c @ [d])\<rparr>))"

text \<open>
  The order Cosmos gives values of different types under \<open>ORDER BY\<close>: null, then
  booleans, numbers, strings, arrays, objects; strings by their characters.
\<close>

fun order_key :: "json \<Rightarrow> nat \<times> int \<times> string" where
  "order_key JNull = (0, 0, [])"
| "order_key (JBool b) = (1, (if b then 1 else 0), [])"
| "order_key (JNum n) = (2, n, [])"
| "order_key (JStr s) = (3, 0, s)"
| "order_key (JArr xs) = (4, 0, [])"
| "order_key (JObj kvs) = (5, 0, [])"

definition field_key :: "string \<Rightarrow> doc \<Rightarrow> nat \<times> int \<times> string" where
  "field_key f d = order_key (dict_get d f JNull)"

text \<open>\<open>WHERE c.userId = @userId\<close>, when the query has the clause.\<close>

definition where_user :: "string option \<Rightarrow> doc \<Rightarrow> bool" where
  "where_user u d = (case u of None \<Rightarrow> True | Some uid \<Rightarrow> map_of d ''userId'' = Some (JStr uid))"

text \<open>\<open>ORDER BY c.f DESC\<close>: a document without the property is left out of the
  result.\<close>

definition order_by_desc :: "string \<Rightarrow> doc list \<Rightarrow> doc list" where
  "order_by_desc f ds = rev (sort_key (field_key f) (filter (\<lambda>d. map_of d f \<noteq> None) ds))"

definition query_items :: "env \<Rightarrow> string \<Rightarrow> string option \<Rightarrow> string \<Rightarrow> store \<Rightarrow> doc list result" where
  "query_items e c u f s =
     (let s' = logged (QueryItems c u f) s in
      if faults e (QueryItems c u f) then (Inl ServiceError, s')
      else (Inr (order_by_desc f (filter (where_user u) (containers s c))), s'))"

text \<open>\<open>blob_client.upload_blob(data, overwrite=True, content_settings=...)\<close>.\<close>

definition upload_blob ::
  "env \<Rightarrow> string \<Rightarrow> string \<Rightarrow> byte list \<Rightarrow> string option \<Rightarrow> store \<Rightarrow> unit result" where
  "upload_blob e c name data ct s =
     (let s' = logged (UploadBlob c name data ct) s in
      if faults e (UploadBlob c name data ct) then (Inl ServiceError, s')
      else (Inr (), s'\<lparr>blobs := (blobs s)((c, name) \<mapsto> (data, ct))\<rparr>))"

text \<open>\<open>blob_client.delete_blob()\<close>: raises when the blob does not exist.\<close>

definition delete_blob :: "env \<Rightarrow> string \<Rightarrow> string \<Rightarrow> store \<Rightarrow> unit result" where
  "delete_blob e c name s =
     (let s' = logged (DeleteBlob c name) s in
      if faults e (DeleteBlob c name) then (Inl ServiceError, s')
      else if blobs s (c, name) = None then (Inl NotFound, s')
      else (Inr (), s'\<lparr>blobs := (blobs s)((c, name) := None)\<rparr>))"

section \<open>The handlers\<close>

text \<open>\<open>os.environ[k]\<close>.\<close>

definition os_environ :: "env \<Rightarrow> string \<Rightarrow> exn + string" where
  "os_environ e k = (case environ e k of None \<Rightarrow> Inl KeyError | Some v \<Rightarrow> Inr v)"

text \<open>\<open>get_cosmos_container\<close> reads the endpoint, the key, the database and then the
  container's name from the environment; the handle it returns is that name.\<close>

definition get_cosmos_container :: "env \<Rightarrow> string \<Rightarrow> exn + string" where
  "get_cosmos_container e container =
     (case os_environ e ''COSMOS_ENDPOINT'' of Inl x \<Rightarrow> Inl x | Inr _ \<Rightarrow>
      (case os_environ e ''COSMOS_KEY'' of Inl x \<Rightarrow> Inl x | Inr _ \<Rightarrow>
       (case os_environ e ''COSMOS_DATABASE'' of Inl x \<Rightarrow> Inl x | Inr _ \<Rightarrow>
          os_environ e container)))"

text \<open>The two lines that make the blob container client, in \<open>uploadMedia\<close> and in
  \<open>deleteMedia\<close>.\<close>

definition get_blob_container :: "env \<Rightarrow> exn + string" where
  "get_blob_container e =
     (case os_environ e ''MEDIA_STORAGE_CONNECTION_STRING'' of Inl x \<Rightarrow> Inl x | Inr _ \<Rightarrow>
        os_environ e ''BLOB_CONTAINER'')"

definition json_response :: "json \<Rightarrow> nat \<Rightarrow> http_response" where
  "json_response v code = HttpResponse (Json v) code (Some ''application/json'')"

definition text_response :: "string \<Rightarrow> nat \<Rightarrow> http_response" where
  "text_response t code = HttpResponse (Text t) code None"


text \<open>How a loop body ends: with an exception, with the handler's \<open>return\<close>, or by
  going on to the next iteration with the loop's variables.\<close>

datatype 'a flow =
    Raise exn
  | Return http_response
  | Next 'a

subsection \<open>uploadMedia\<close>

definition uploadMedia :: "env \<Rightarrow> http_request \<Rightarrow> store \<Rightarrow> http_response result" where
  "uploadMedia e req s =
     (let user_id_opt = form req ''userId''; file_opt = files req ''file'' in
      if py_not user_id_opt \<or> py_not_file file_opt
      then (Inr (text_response ''Missing userId or file'' 400), s)
      else
        (case (user_id_opt, file_opt) of
           (Some user_id, Some file) \<Rightarrow>
             (let media_id = uuid4 e;
                  file_name = filename file;
                  ctype = content_type file;
                  blob_name = user_id @ ''/'' @ media_id @ ''-'' @ file_name
              in
              case get_blob_container e of Inl x \<Rightarrow> (Inl x, s) | Inr bc \<Rightarrow>
              (let data = stream file in
               case upload_blob e bc blob_name data ctype s of
                 (Inl x, s1) \<Rightarrow> (Inl x, s1)
               | (Inr _, s1) \<Rightarrow>
                 (case get_cosmos_container e ''COSMOS_MEDIA_CONTAINER'' of
                    Inl x \<Rightarrow> (Inl x, s1)
                  | Inr c \<Rightarrow>
                    (let doc =
                       [(''id'', JStr media_id),
                        (''userId'', JStr user_id),
                        (''fileName'', JStr file_name),
                        (''contentType'', json_of_opt ctype),
                        (''sizeBytes'', JNum (int (length data))),
                        (''blobName'', JStr blob_name),
                        (''uploadedAt'', JStr (utcnow_iso e))]
                     in
                     case upsert_item e c doc s1 of
                       (Inl x, s2) \<Rightarrow> (Inl x, s2)
                     | (Inr _, s2) \<Rightarrow> (Inr (json_response (JObj doc) 201), s2)))))
         | _ \<Rightarrow> (Inr (text_response ''Missing userId or file'' 400), s)))"

subsection \<open>createPost\<close>

definition media_ref :: "doc \<Rightarrow> exn + json" where
  "media_ref media_doc =
     (case dict_item media_doc ''id'' of Inl x \<Rightarrow> Inl x | Inr mid \<Rightarrow>
      (case dict_item media_doc ''blobName'' of Inl x \<Rightarrow> Inl x | Inr bn \<Rightarrow>
         Inr (JObj [(''mediaId'', mid),
                    (''blobName'', bn),
                    (''contentType'', dict_get media_doc ''contentType'' JNull)])))"

text \<open>The loop \<open>for m in media\<close>: the lookup is inside the \<open>try\<close>, the construction
  of the reference after it.\<close>

fun media_loop ::
  "env \<Rightarrow> string \<Rightarrow> json \<Rightarrow> json list \<Rightarrow> json list \<Rightarrow> store \<Rightarrow> json list flow \<times> store" where
  "media_loop e mc user_id [] media_refs s = (Next media_refs, s)"
| "media_loop e mc user_id (m # ms) media_refs s =
     (case read_item e mc m user_id s of
        (Inl _, s1) \<Rightarrow>
          (Return (HttpResponse (FText ''media not found or not owned by user: '' m) 404 None), s1)
      | (Inr media_doc, s1) \<Rightarrow>
          (case media_ref media_doc of
             Inl x \<Rightarrow> (Raise x, s1)
           | Inr r \<Rightarrow> media_loop e mc user_id ms (media_refs @ [r]) s1))"

text \<open>The block \<open>media_refs = []; if media: ...\<close>.\<close>

definition collect_media :: "env \<Rightarrow> json \<Rightarrow> json \<Rightarrow> store \<Rightarrow> json list flow \<times> store" where
  "collect_media e media user_id s =
     (if truthy media then
        (case get_cosmos_container e ''COSMOS_MEDIA_CONTAINER'' of
           Inl x \<Rightarrow> (Raise x, s)
         | Inr mc \<Rightarrow>
           (case py_iter media of
              Inl x \<Rightarrow> (Raise x, s)
            | Inr ms \<Rightarrow> media_loop e mc user_id ms [] s))
      else (Next [], s))"

definition createPost :: "env \<Rightarrow> http_request \<Rightarrow> store \<Rightarrow> http_response result" where
  "createPost e req s =
     (case json_body req of
        None \<Rightarrow> (Inr (text_response ''Invalid JSON body'' 400), s)
      | Some body \<Rightarrow>
        (case body_get body ''userId'' JNull of Inl x \<Rightarrow> (Inl x, s) | Inr user_id \<Rightarrow>
        (case body_get body ''title'' JNull of Inl x \<Rightarrow> (Inl x, s) | Inr title \<Rightarrow>
        (case body_get body ''caption'' (JStr []) of Inl x \<Rightarrow> (Inl x, s) | Inr caption \<Rightarrow>
        (case body_get body ''media'' (JArr []) of Inl x \<Rightarrow> (Inl x, s) | Inr media \<Rightarrow>
        (case collect_media e media user_id s of
           (Raise x, s1) \<Rightarrow> (Inl x, s1)
         | (Return r, s1) \<Rightarrow> (Inr r, s1)
         | (Next media_refs, s1) \<Rightarrow>
           (let post_id = uuid4 e;
                post_doc =
                  [(''id'', JStr post_id),
                   (''userId'', user_id),
                   (''title'', title),
                   (''caption'', caption),
                   (''media'', JArr media_refs),
                   (''createdAt'', JStr (utcnow_iso e))]
            in
            case get_cosmos_container e ''COSMOS_POST_CONTAINER'' of
              Inl x \<Rightarrow> (Inl x, s1)
            | Inr pc \<Rightarrow>
              (case create_item e pc post_doc s1 of
                 (Inl x, s2) \<Rightarrow> (Inl x, s2)
               | (Inr _, s2) \<Rightarrow> (Inr (json_response (JObj post_doc) 201), s2)))))))))"

subsection \<open>getPosts, getAllPosts, getUserMedia\<close>

definition getPosts :: "env \<Rightarrow> http_request \<Rightarrow> store \<Rightarrow> http_response result" where
  "getPosts e req s =
     (let user_id_opt = params req ''userId'' in
      if py_not user_id_opt then (Inr (text_response ''Missing userId'' 400), s)
      else
        (case user_id_opt of
           Some user_id \<Rightarrow>
             (case get_cosmos_container e ''COSMOS_POST_CONTAINER'' of
                Inl x \<Rightarrow> (Inl x, s)
              | Inr pc \<Rightarrow>
                (case query_items e pc (Some user_id) ''createdAt'' s of
                   (Inl x, s1) \<Rightarrow> (Inl x, s1)
                 | (Inr items, s1) \<Rightarrow> (Inr (json_response (JArr (map JObj items)) 200), s1)))
         | None \<Rightarrow> (Inr (text_response ''Missing userId'' 400), s)))"

definition getAllPosts :: "env \<Rightarrow> http_request \<Rightarrow> store \<Rightarrow> http_response result" where
  "getAllPosts e req s =
     (case get_cosmos_container e ''COSMOS_POST_CONTAINER'' of
        Inl x \<Rightarrow> (Inl x, s)
      | Inr pc \<Rightarrow>
        (case query_items e pc None ''createdAt'' s of
           (Inl x, s1) \<Rightarrow> (Inl x, s1)
         | (Inr items, s1) \<Rightarrow> (Inr (json_response (JArr (map JObj items)) 200), s1)))"

definition getUserMedia :: "env \<Rightarrow> http_request \<Rightarrow> store \<Rightarrow> http_response result" where
  "getUserMedia e req s =
     (let user_id_opt = params req ''userId'' in
      if py_not user_id_opt then (Inr (text_response ''Missing userId'' 400), s)
      else
        (case user_id_opt of
           Some user_id \<Rightarrow>
             (case get_cosmos_container e ''COSMOS_MEDIA_CONTAINER'' of
                Inl x \<Rightarrow> (Inl x, s)
              | Inr mc \<Rightarrow>
                (case query_items e mc (Some user_id) ''uploadedAt'' s of
                   (Inl x, s1) \<Rightarrow> (Inl x, s1)
                 | (Inr items, s1) \<Rightarrow> (Inr (json_response (JArr (map JObj items)) 200), s1)))
         | None \<Rightarrow> (Inr (text_response ''Missing userId'' 400), s)))"

subsection \<open>deletePost\<close>

definition deletePost :: "env \<Rightarrow> http_request \<Rightarrow> store \<Rightarrow> http_response result" where
  "deletePost e req s =
     (let user_id_opt = params req ''userId''; post_id_opt = params req ''postId'' in
      if py_not user_id_opt \<or> py_not post_id_opt
      then (Inr (text_response ''Missing userId or postId'' 400), s)
      else
        (case (user_id_opt, post_id_opt) of
           (Some user_id, Some post_id) \<Rightarrow>
             (case get_cosmos_container e ''COSMOS_POST_CONTAINER'' of
                Inl x \<Rightarrow> (Inl x, s)
              | Inr pc \<Rightarrow>
                (case delete_item e pc (JStr post_id) (JStr user_id) s of
                   (Inl _, s1) \<Rightarrow> (Inr (text_response ''Post not found'' 404), s1)
                 | (Inr _, s1) \<Rightarrow> (Inr (HttpResponse NoBody 204 None), s1)))
         | _ \<Rightarrow> (Inr (text_response ''Missing userId or postId'' 400), s)))"

subsection \<open>deleteMedia\<close>

text \<open>The body of the second \<open>try\<close>: the blob client is made from the environment and
  the blob is deleted under its name, a string.\<close>

definition delete_media_blob :: "env \<Rightarrow> json \<Rightarrow> store \<Rightarrow> unit result" where
  "delete_media_blob e blob_name s =
     (case get_blob_container e of
        Inl x \<Rightarrow> (Inl x, s)
      | Inr bc \<Rightarrow>
        (case blob_name of
           JStr b \<Rightarrow> delete_blob e bc b s
         | _ \<Rightarrow> (Inl TypeError, s)))"

definition deleteMedia :: "env \<Rightarrow> http_request \<Rightarrow> store \<Rightarrow> http_response result" where
  "deleteMedia e req s =
     (let user_id_opt = params req ''userId''; media_id_opt = params req ''mediaId'' in
      if py_not user_id_opt \<or> py_not media_id_opt
      then (Inr (text_response ''missing userId or mediaId'' 400), s)
      else
        (case (user_id_opt, media_id_opt) of
           (Some user_id, Some media_id) \<Rightarrow>
             (case get_cosmos_container e ''COSMOS_MEDIA_CONTAINER'' of
                Inl x \<Rightarrow> (Inl x, s)
              | Inr mc \<Rightarrow>
                (case read_item e mc (JStr media_id) (JStr user_id) s of
                   (Inl _, s1) \<Rightarrow> (Inr (text_response ''media not found'' 404), s1)
                 | (Inr media_doc, s1) \<Rightarrow>
                   (let blob_name = dict_get media_doc ''blobName'' JNull in
                    if \<not> truthy blob_name
                    then (Inr (text_response ''media record missing blobname'' 500), s1)
                    else
                      (case delete_media_blob e blob_name s1 of
                         (Inl _, s2) \<Rightarrow> (Inr (text_response ''failed to delete media blob'' 500), s2)
                       | (Inr _, s2) \<Rightarrow>
                         (case delete_item e mc (JStr media_id) (JStr user_id) s2 of
                            (Inl _, s3) \<Rightarrow>
                              (Inr (text_response ''failed to delete cosmos document'' 500), s3)
                          | (Inr _, s3) \<Rightarrow> (Inr (HttpResponse NoBody 204 None), s3))))))
         | _ \<Rightarrow> (Inr (text_response ''missing userId or mediaId'' 400), s)))"

section \<open>Example data\<close>

text \<open>
  The example of the specification: user \<open>u1\<close> uploads the one-byte file \<open>a.png\<close>
  of type \<open>image/png\<close> into empty stores, with every setting of the environment
  present and no dependency failure.
\<close>

definition demo_env :: env where
  "demo_env =
     \<lparr>environ =
        [''COSMOS_ENDPOINT'' \<mapsto> ''https://db'',
         ''COSMOS_KEY'' \<mapsto> ''k'',
         ''COSMOS_DATABASE'' \<mapsto> ''be'',
         ''COSMOS_MEDIA_CONTAINER'' \<mapsto> ''media'',
         ''COSMOS_POST_CONTAINER'' \<mapsto> ''posts'',
         ''MEDIA_STORAGE_CONNECTION_STRING'' \<mapsto> ''conn'',
         ''BLOB_CONTAINER'' \<mapsto> ''files''],
      uuid4 = ''m1'',
      utcnow_iso = ''2024-01-01T00:00:00+00:00'',
      faults = (\<lambda>_. False)\<rparr>"

definition empty_store :: store where
  "empty_store = \<lparr>containers = (\<lambda>_. []), blobs = Map.empty, calls = []\<rparr>"

definition upload_req :: http_request where
  "upload_req =
     \<lparr>form = [''userId'' \<mapsto> ''u1''],
      files = [''file'' \<mapsto>
        \<lparr>filename = ''a.png'', content_type = Some ''image/png'', stream = [0x58]\<rparr>],
      params = Map.empty,
      json_body = None\<rparr>"

definition media_doc1 :: doc where
  "media_doc1 =
     [(''id'', JStr ''m1''),
      (''userId'', JStr ''u1''),
      (''fileName'', JStr ''a.png''),
      (''contentType'', JStr ''image/png''),
      (''sizeBytes'', JNum 1),
      (''blobName'', JStr ''u1/m1-a.png''),
      (''uploadedAt'', JStr ''2024-01-01T00:00:00+00:00'')]"

definition media_store :: store where
  "media_store =
     \<lparr>containers = (\<lambda>_. [])(''media'' := [media_doc1]),
      blobs = [(''files'', ''u1/m1-a.png'') \<mapsto> ([0x58], Some ''image/png'')],
      calls = []\<rparr>"

definition corrupt_store :: store where
  "corrupt_store =
     \<lparr>containers = (\<lambda>_. [])(''media'' := [[(''id'', JStr ''m1''), (''userId'', JStr ''u1'')]]),
      blobs = Map.empty,
      calls = []\<rparr>"

definition delete_media_req :: http_request where
  "delete_media_req =
     \<lparr>form = Map.empty, files = Map.empty,
      params = [''userId'' \<mapsto> ''u1'', ''mediaId'' \<mapsto> ''m1''],
      json_body = None\<rparr>"

text \<open>The environment of the example in which one store call fails.\<close>

definition failing :: "store_call \<Rightarrow> env" where
  "failing c = demo_env\<lparr>faults := (\<lambda>c'. c' = c)\<rparr>"

text \<open>A \<open>createPost\<close> request with the given JSON object as its body.\<close>

definition post_req :: "doc \<Rightarrow> http_request" where
  "post_req kvs =
     \<lparr>form = Map.empty, files = Map.empty, params = Map.empty, json_body = Some (JObj kvs)\<rparr>"

text \<open>The environment of the example when the next fresh id is \<open>p1\<close>.\<close>

definition post_env :: env where
  "post_env = demo_env\<lparr>uuid4 := ''p1''\<rparr>"

text \<open>A media collection in which the second document of \<open>u1\<close> has lost its blob name.\<close>

definition mixed_store :: store where
  "mixed_store =
     \<lparr>containers = (\<lambda>_. [])(''media'' := [media_doc1, [(''id'', JStr ''m2''), (''userId'', JStr ''u1'')]]),
      blobs = [(''files'', ''u1/m1-a.png'') \<mapsto> ([0x58], Some ''image/png'')],
      calls = []\<rparr>"

text \<open>A post collection with two posts of \<open>u1\<close> and one of \<open>u2\<close>, and a request that
  names a user.\<close>

definition post_doc :: "string \<Rightarrow> string \<Rightarrow> string \<Rightarrow> doc" where
  "post_doc pid uid t =
     [(''id'', JStr pid),
      (''userId'', JStr uid),
      (''title'', JStr ''T''),
      (''caption'', JStr []),
      (''media'', JArr []),
      (''createdAt'', JStr t)]"

definition posts_store :: store where
  "posts_store =
     \<lparr>containers = (\<lambda>_. [])(''posts'' :=
        [post_doc ''p1'' ''u1'' ''2024-01-01T10:00:00+00:00'',
         post_doc ''p2'' ''u2'' ''2024-01-02T10:00:00+00:00'',
         post_doc ''p3'' ''u1'' ''2024-01-03T10:00:00+00:00'']),
      blobs = Map.empty,
      calls = []\<rparr>"

definition get_req :: "string \<Rightarrow> http_request" where
  "get_req uid =
     \<lparr>form = Map.empty, files = Map.empty, params = [''userId'' \<mapsto> uid], json_body = None\<rparr>"

text \<open>The request to delete the post \<open>p1\<close> of \<open>u1\<close>.\<close>

definition delete_post_req :: http_request where
  "delete_post_req =
     \<lparr>form = Map.empty, files = Map.empty,
      params = [''userId'' \<mapsto> ''u1'', ''postId'' \<mapsto> ''p1''],
      json_body = None\<rparr>"

section \<open>Properties of the store operations\<close>

lemma logged_simps [simp]:
  "containers (logged c s) = containers s"
  "blobs (logged c s) = blobs s"
  "calls (logged c s) = calls s @ [c]"
  by (simp_all add: logged_def)

lemma read_item_str:
  "read_item e c (JStr i) pk s =
     ((if faults e (ReadItem c (JStr i) pk) then Inl ServiceError
       else (case find (item_matches (JStr i) pk) (containers s c) of
               None \<Rightarrow> Inl NotFound | Some d \<Rightarrow> Inr d)),
      logged (ReadItem c (JStr i) pk) s)"
  by (simp add: read_item_def Let_def split: option.splits)

lemma read_item_frame:
  "containers (snd (read_item e c m pk s)) = containers s"
  "blobs (snd (read_item e c m pk s)) = blobs s"
  by (simp_all add: read_item_def Let_def split: json.splits option.splits)

lemma find_Some_list_ex: "find P xs = Some d \<Longrightarrow> list_ex P xs"
  by (auto simp add: find_Some_iff list_ex_iff)

lemma find_filter_not: "find P (filter (\<lambda>x. \<not> P x) xs) = None"
  by (simp add: find_None_iff)

lemma delete_item_ok:
  assumes "\<not> faults e (DeleteItem c item pk)" "list_ex (item_matches item pk) (containers s c)"
  shows "delete_item e c item pk s =
     (Inr (), (logged (DeleteItem c item pk) s)
        \<lparr>containers := (containers s)(c := filter (\<lambda>d. \<not> item_matches item pk d) (containers s c))\<rparr>)"
  using assms by (simp add: delete_item_def Let_def)

lemma delete_item_fault:
  assumes "faults e (DeleteItem c item pk)"
  shows "delete_item e c item pk s = (Inl ServiceError, logged (DeleteItem c item pk) s)"
  using assms by (simp add: delete_item_def Let_def)

lemma delete_item_absent:
  assumes "\<not> list_ex (item_matches item pk) (containers s c)"
  shows "\<exists>x. delete_item e c item pk s = (Inl x, logged (DeleteItem c item pk) s)"
  using assms by (simp add: delete_item_def Let_def)

lemma demo_config:
  "get_cosmos_container demo_env ''COSMOS_MEDIA_CONTAINER'' = Inr ''media''"
  "get_cosmos_container demo_env ''COSMOS_POST_CONTAINER'' = Inr ''posts''"
  "get_blob_container demo_env = Inr ''files''"
  by (simp_all add: get_cosmos_container_def get_blob_container_def os_environ_def demo_env_def)

lemma failing_config:
  "get_cosmos_container (failing c) ''COSMOS_MEDIA_CONTAINER'' = Inr ''media''"
  "get_cosmos_container (failing c) ''COSMOS_POST_CONTAINER'' = Inr ''posts''"
  "get_blob_container (failing c) = Inr ''files''"
  by (simp_all add: get_cosmos_container_def get_blob_container_def os_environ_def demo_env_def failing_def)

lemma media_store_read_m1:
  "fst (read_item demo_env ''media'' (JStr ''m1'') (JStr ''u1'') media_store) = Inr media_doc1"
  by (simp add: read_item_str demo_env_def media_store_def media_doc1_def item_matches_def)

lemma post_env_config:
  "get_cosmos_container post_env ''COSMOS_MEDIA_CONTAINER'' = Inr ''media''"
  "get_cosmos_container post_env ''COSMOS_POST_CONTAINER'' = Inr ''posts''"
  by (simp_all add: get_cosmos_container_def os_environ_def demo_env_def post_env_def)

lemma post_env_read_m1:
  "fst (read_item post_env ''media'' (JStr ''m1'') (JStr ''u1'') media_store) = Inr media_doc1"
  by (simp add: read_item_str post_env_def demo_env_def media_store_def media_doc1_def item_matches_def)

lemma find_app:
  "find P (xs @ ys) = (case find P xs of None \<Rightarrow> find P ys | Some x \<Rightarrow> Some x)"
  by (induction xs) simp_all

lemma upload_blob_ok:
  assumes "\<not> faults e (UploadBlob c name data ct)"
  shows "upload_blob e c name data ct s =
           (Inr (), (logged (UploadBlob c name data ct) s)\<lparr>blobs := (blobs s)((c, name) \<mapsto> (data, ct))\<rparr>)"
  using assms by (simp add: upload_blob_def Let_def)

lemma upsert_item_ok:
  assumes "\<not> faults e (UpsertItem c d)"
  shows "upsert_item e c d s =
           (Inr (), (logged (UpsertItem c d) s)
              \<lparr>containers := (containers s)(c := filter (\<lambda>d'. \<not> same_item d d') (containers s c) @ [d])\<rparr>)"
  using assms by (simp add: upsert_item_def Let_def)

lemma order_by_desc_sorted:
  "sorted_wrt (\<lambda>a b. field_key f b \<le> field_key f a) (order_by_desc f ds)"
proof -
  let ?xs = "sort_key (field_key f) (filter (\<lambda>d. map_of d f \<noteq> None) ds)"
  have "sorted (map (field_key f) ?xs)"
    by (rule sorted_sort_key)
  then have "sorted_wrt (\<lambda>a b. field_key f a \<le> field_key f b) ?xs"
    by (simp only: sorted_map)
  then show ?thesis
    by (simp only: order_by_desc_def sorted_wrt_rev)
qed

lemma order_by_desc_mset:
  "mset (order_by_desc f ds) = mset (filter (\<lambda>d. map_of d f \<noteq> None) ds)"
  by (simp add: order_by_desc_def)

lemma field_key_strings:
  assumes "map_of a f = Some (JStr x)" "map_of b f = Some (JStr y)"
  shows "field_key f b \<le> field_key f a \<longleftrightarrow> y \<le> x"
  using assms by (auto simp add: field_key_def dict_get_def)

lemma query_items_ok:
  assumes "\<not> faults e (QueryItems c u f)"
  shows "query_items e c u f s =
           (Inr (order_by_desc f (filter (where_user u) (containers s c))), logged (QueryItems c u f) s)"
  using assms by (simp add: query_items_def Let_def)

lemma posts_of_u1:
  "order_by_desc ''createdAt'' (filter (where_user (Some ''u1'')) (containers posts_store ''posts''))
     = [post_doc ''p3'' ''u1'' ''2024-01-03T10:00:00+00:00'',
        post_doc ''p1'' ''u1'' ''2024-01-01T10:00:00+00:00'']"
  by (simp add: posts_store_def post_doc_def where_user_def order_by_desc_def sort_key_def
      field_key_def dict_get_def)

lemma posts_of_all:
  "order_by_desc ''createdAt'' (filter (where_user None) (containers posts_store ''posts''))
     = [post_doc ''p3'' ''u1'' ''2024-01-03T10:00:00+00:00'',
        post_doc ''p2'' ''u2'' ''2024-01-02T10:00:00+00:00'',
        post_doc ''p1'' ''u1'' ''2024-01-01T10:00:00+00:00'']"
  by (simp add: posts_store_def post_doc_def where_user_def order_by_desc_def sort_key_def
      field_key_def dict_get_def)

lemma mixed_store_read_m1:
  "fst (read_item post_env ''media'' (JStr ''m1'') (JStr ''u1'') mixed_store) = Inr media_doc1"
  by (simp add: read_item_str post_env_def demo_env_def mixed_store_def media_doc1_def item_matches_def)

lemma mixed_store_read_ghost:
  "fst (read_item post_env ''media'' (JStr ''ghost'') (JStr ''u1'') mixed_store) = Inl NotFound"
  by (simp add: read_item_str post_env_def demo_env_def mixed_store_def media_doc1_def item_matches_def)

section \<open>Validation of the parameters\<close>

lemma py_not_iff: "py_not v \<longleftrightarrow> v = None \<or> v = Some []"
  by (simp add: py_not_def split: option.splits)

text \<open>
  Claim C10. In \<open>uploadMedia\<close>, \<open>getPosts\<close>, \<open>getUserMedia\<close>, \<open>deletePost\<close> and
  \<open>deleteMedia\<close>, a required parameter that is the empty string is treated as one that
  is absent: whatever the rest of the request, the answer is the 400 of the endpoint and
  the state of the stores is the one before the request, its log of calls included, so
  no Blob Store or Document Store call has been made.
\<close>

theorem empty_parameter_rejected:
  assumes "v = None \<or> v = Some []"
  shows
    "uploadMedia e (req\<lparr>form := (form req)(''userId'' := v)\<rparr>) s
       = (Inr (text_response ''Missing userId or file'' 400), s)
     \<and> getPosts e (req\<lparr>params := (params req)(''userId'' := v)\<rparr>) s
       = (Inr (text_response ''Missing userId'' 400), s)
     \<and> getUserMedia e (req\<lparr>params := (params req)(''userId'' := v)\<rparr>) s
       = (Inr (text_response ''Missing userId'' 400), s)
     \<and> deletePost e (req\<lparr>params := (params req)(''userId'' := v)\<rparr>) s
       = (Inr (text_response ''Missing userId or postId'' 400), s)
     \<and> deletePost e (req\<lparr>params := (params req)(''postId'' := v)\<rparr>) s
       = (Inr (text_response ''Missing userId or postId'' 400), s)
     \<and> deleteMedia e (req\<lparr>params := (params req)(''userId'' := v)\<rparr>) s
       = (Inr (text_response ''missing userId or mediaId'' 400), s)
     \<and> deleteMedia e (req\<lparr>params := (params req)(''mediaId'' := v)\<rparr>) s
       = (Inr (text_response ''missing userId or mediaId'' 400), s)"
proof -
  have nv: "py_not v"
    using assms by (simp add: py_not_iff)
  show ?thesis
    using nv
    by (simp add: uploadMedia_def getPosts_def getUserMedia_def deletePost_def deleteMedia_def)
qed

theorem empty_parameter_rejected_witness:
  "uploadMedia demo_env (upload_req\<lparr>form := (form upload_req)(''userId'' \<mapsto> [])\<rparr>) empty_store
     = (Inr (text_response ''Missing userId or file'' 400), empty_store)
   \<and> getPosts demo_env (upload_req\<lparr>params := (params upload_req)(''userId'' \<mapsto> [])\<rparr>) empty_store
     = (Inr (text_response ''Missing userId'' 400), empty_store)
   \<and> deletePost demo_env (upload_req\<lparr>params := (params upload_req)(''postId'' \<mapsto> [])\<rparr>) empty_store
     = (Inr (text_response ''Missing userId or postId'' 400), empty_store)
   \<and> deleteMedia demo_env (upload_req\<lparr>params := (params upload_req)(''mediaId'' \<mapsto> [])\<rparr>) empty_store
     = (Inr (text_response ''missing userId or mediaId'' 400), empty_store)"
  using empty_parameter_rejected [of "Some []" demo_env upload_req empty_store]
  by simp

section \<open>deleteMedia: the order of its steps\<close>

lemma delete_media_blob_containers:
  "containers (snd (delete_media_blob e bn s)) = containers s"
  by (simp add: delete_media_blob_def delete_blob_def Let_def split: sum.splits json.splits)

lemma delete_media_blob_failed:
  "fst (delete_media_blob e bn s) = Inl x \<Longrightarrow> blobs (snd (delete_media_blob e bn s)) = blobs s"
  by (simp add: delete_media_blob_def delete_blob_def Let_def split: sum.splits json.splits if_splits)

lemma delete_media_blob_logged:
  "fst (delete_media_blob e bn (logged c s)) = fst (delete_media_blob e bn s)"
  by (simp add: delete_media_blob_def delete_blob_def Let_def split: sum.splits json.splits)

lemma delete_media_blob_done:
  assumes "fst (delete_media_blob e bn s) = Inr ()"
  shows "\<exists>bc b. get_blob_container e = Inr bc \<and> bn = JStr b \<and> blobs s (bc, b) \<noteq> None
           \<and> \<not> faults e (DeleteBlob bc b)
           \<and> snd (delete_media_blob e bn s)
               = (logged (DeleteBlob bc b) s)\<lparr>blobs := (blobs s)((bc, b) := None)\<rparr>"
  using assms
  by (auto simp add: delete_media_blob_def delete_blob_def Let_def split: sum.splits json.splits if_splits)

lemma deleteMedia_valid:
  assumes "params req ''userId'' = Some uid" "uid \<noteq> []"
      and "params req ''mediaId'' = Some mid" "mid \<noteq> []"
      and "get_cosmos_container e ''COSMOS_MEDIA_CONTAINER'' = Inr mc"
  shows "deleteMedia e req s =
     (case read_item e mc (JStr mid) (JStr uid) s of
        (Inl _, s1) \<Rightarrow> (Inr (text_response ''media not found'' 404), s1)
      | (Inr media_doc, s1) \<Rightarrow>
          (let blob_name = dict_get media_doc ''blobName'' JNull in
           if \<not> truthy blob_name
           then (Inr (text_response ''media record missing blobname'' 500), s1)
           else
             (case delete_media_blob e blob_name s1 of
                (Inl _, s2) \<Rightarrow> (Inr (text_response ''failed to delete media blob'' 500), s2)
              | (Inr _, s2) \<Rightarrow>
                (case delete_item e mc (JStr mid) (JStr uid) s2 of
                   (Inl _, s3) \<Rightarrow>
                     (Inr (text_response ''failed to delete cosmos document'' 500), s3)
                 | (Inr _, s3) \<Rightarrow> (Inr (HttpResponse NoBody 204 None), s3)))))"
  using assms by (simp add: deleteMedia_def py_not_def)

lemma deleteMedia_read_fails:
  assumes "params req ''userId'' = Some uid" "uid \<noteq> []"
      and "params req ''mediaId'' = Some mid" "mid \<noteq> []"
      and "get_cosmos_container e ''COSMOS_MEDIA_CONTAINER'' = Inr mc"
      and "faults e (ReadItem mc (JStr mid) (JStr uid))
           \<or> find (item_matches (JStr mid) (JStr uid)) (containers s mc) = None"
  shows "deleteMedia e req s =
           (Inr (text_response ''media not found'' 404), logged (ReadItem mc (JStr mid) (JStr uid)) s)"
  using assms(6) by (auto simp add: deleteMedia_valid[OF assms(1-5)] read_item_str)

lemma deleteMedia_no_blobName:
  assumes "params req ''userId'' = Some uid" "uid \<noteq> []"
      and "params req ''mediaId'' = Some mid" "mid \<noteq> []"
      and "get_cosmos_container e ''COSMOS_MEDIA_CONTAINER'' = Inr mc"
      and "\<not> faults e (ReadItem mc (JStr mid) (JStr uid))"
      and "find (item_matches (JStr mid) (JStr uid)) (containers s mc) = Some d"
      and "map_of d ''blobName'' = None \<or> \<not> truthy (dict_get d ''blobName'' JNull)"
  shows "deleteMedia e req s =
           (Inr (text_response ''media record missing blobname'' 500),
            logged (ReadItem mc (JStr mid) (JStr uid)) s)"
  using assms(6-8) by (auto simp add: deleteMedia_valid[OF assms(1-5)] read_item_str dict_get_def)

lemma deleteMedia_blob_fails:
  assumes "params req ''userId'' = Some uid" "uid \<noteq> []"
      and "params req ''mediaId'' = Some mid" "mid \<noteq> []"
      and "get_cosmos_container e ''COSMOS_MEDIA_CONTAINER'' = Inr mc"
      and "\<not> faults e (ReadItem mc (JStr mid) (JStr uid))"
      and "find (item_matches (JStr mid) (JStr uid)) (containers s mc) = Some d"
      and "truthy (dict_get d ''blobName'' JNull)"
      and "fst (delete_media_blob e (dict_get d ''blobName'' JNull) s) = Inl x"
  shows "fst (deleteMedia e req s) = Inr (text_response ''failed to delete media blob'' 500)
         \<and> containers (snd (deleteMedia e req s)) = containers s
         \<and> blobs (snd (deleteMedia e req s)) = blobs s"
proof -
  let ?rd = "ReadItem mc (JStr mid) (JStr uid)"
  let ?bn = "dict_get d ''blobName'' JNull"
  obtain r s2 where r: "delete_media_blob e ?bn (logged ?rd s) = (r, s2)"
    by (cases "delete_media_blob e ?bn (logged ?rd s)")
  have "r = Inl x"
    using delete_media_blob_logged[of e ?bn ?rd s] r assms(9) by simp
  moreover have "containers s2 = containers s"
    using delete_media_blob_containers[of e ?bn "logged ?rd s"] r by simp
  moreover have "blobs s2 = blobs s"
    using delete_media_blob_failed[of e ?bn "logged ?rd s" x] r \<open>r = Inl x\<close> by simp
  ultimately show ?thesis
    using assms(6-8) r by (simp add: deleteMedia_valid[OF assms(1-5)] read_item_str)
qed

lemma deleteMedia_blob_deleted:
  assumes "params req ''userId'' = Some uid" "uid \<noteq> []"
      and "params req ''mediaId'' = Some mid" "mid \<noteq> []"
      and "get_cosmos_container e ''COSMOS_MEDIA_CONTAINER'' = Inr mc"
      and "\<not> faults e (ReadItem mc (JStr mid) (JStr uid))"
      and "find (item_matches (JStr mid) (JStr uid)) (containers s mc) = Some d"
      and "truthy (dict_get d ''blobName'' JNull)"
      and "fst (delete_media_blob e (dict_get d ''blobName'' JNull) s) = Inr ()"
  shows "\<exists>bc b. get_blob_container e = Inr bc \<and> dict_get d ''blobName'' JNull = JStr b \<and>
           deleteMedia e req s =
             (case delete_item e mc (JStr mid) (JStr uid)
                ((logged (DeleteBlob bc b) (logged (ReadItem mc (JStr mid) (JStr uid)) s))
                   \<lparr>blobs := (blobs s)((bc, b) := None)\<rparr>) of
                (Inl _, s3) \<Rightarrow> (Inr (text_response ''failed to delete cosmos document'' 500), s3)
              | (Inr _, s3) \<Rightarrow> (Inr (HttpResponse NoBody 204 None), s3))"
proof -
  let ?rd = "ReadItem mc (JStr mid) (JStr uid)"
  let ?bn = "dict_get d ''blobName'' JNull"
  have ok: "fst (delete_media_blob e ?bn (logged ?rd s)) = Inr ()"
    using assms(9) by (simp add: delete_media_blob_logged)
  from delete_media_blob_done[OF ok] obtain bc b where
    bc: "get_blob_container e = Inr bc" and b: "?bn = JStr b"
    and s2: "snd (delete_media_blob e ?bn (logged ?rd s))
               = (logged (DeleteBlob bc b) (logged ?rd s))\<lparr>blobs := (blobs s)((bc, b) := None)\<rparr>"
    by auto
  have "delete_media_blob e ?bn (logged ?rd s)
          = (Inr (), (logged (DeleteBlob bc b) (logged ?rd s))\<lparr>blobs := (blobs s)((bc, b) := None)\<rparr>)"
    using ok s2 by (simp add: prod_eq_iff)
  then have "deleteMedia e req s =
             (case delete_item e mc (JStr mid) (JStr uid)
                ((logged (DeleteBlob bc b) (logged ?rd s))\<lparr>blobs := (blobs s)((bc, b) := None)\<rparr>) of
                (Inl _, s3) \<Rightarrow> (Inr (text_response ''failed to delete cosmos document'' 500), s3)
              | (Inr _, s3) \<Rightarrow> (Inr (HttpResponse NoBody 204 None), s3))"
    using assms(6-8) by (simp add: deleteMedia_valid[OF assms(1-5)] read_item_str)
  with bc b show ?thesis by blast
qed

lemma deleteMedia_doc_fails:
  assumes "params req ''userId'' = Some uid" "uid \<noteq> []"
      and "params req ''mediaId'' = Some mid" "mid \<noteq> []"
      and "get_cosmos_container e ''COSMOS_MEDIA_CONTAINER'' = Inr mc"
      and "\<not> faults e (ReadItem mc (JStr mid) (JStr uid))"
      and "find (item_matches (JStr mid) (JStr uid)) (containers s mc) = Some d"
      and "truthy (dict_get d ''blobName'' JNull)"
      and "fst (delete_media_blob e (dict_get d ''blobName'' JNull) s) = Inr ()"
      and "faults e (DeleteItem mc (JStr mid) (JStr uid))"
  shows "fst (deleteMedia e req s) = Inr (text_response ''failed to delete cosmos document'' 500)
         \<and> containers (snd (deleteMedia e req s)) = containers s
         \<and> (\<exists>bc b. get_blob_container e = Inr bc \<and> dict_get d ''blobName'' JNull = JStr b
               \<and> blobs (snd (deleteMedia e req s)) = (blobs s)((bc, b) := None))"
proof -
  from deleteMedia_blob_deleted[OF assms(1-9)] obtain bc b where
    bc: "get_blob_container e = Inr bc" and b: "dict_get d ''blobName'' JNull = JStr b"
    and dm: "deleteMedia e req s =
             (case delete_item e mc (JStr mid) (JStr uid)
                ((logged (DeleteBlob bc b) (logged (ReadItem mc (JStr mid) (JStr uid)) s))
                   \<lparr>blobs := (blobs s)((bc, b) := None)\<rparr>) of
                (Inl _, s3) \<Rightarrow> (Inr (text_response ''failed to delete cosmos document'' 500), s3)
              | (Inr _, s3) \<Rightarrow> (Inr (HttpResponse NoBody 204 None), s3))"
    by blast
  show ?thesis
    using bc b by (simp add: dm delete_item_fault[OF assms(10)])
qed

lemma deleteMedia_done:
  assumes "params req ''userId'' = Some uid" "uid \<noteq> []"
      and "params req ''mediaId'' = Some mid" "mid \<noteq> []"
      and "get_cosmos_container e ''COSMOS_MEDIA_CONTAINER'' = Inr mc"
      and "\<not> faults e (ReadItem mc (JStr mid) (JStr uid))"
      and "find (item_matches (JStr mid) (JStr uid)) (containers s mc) = Some d"
      and "truthy (dict_get d ''blobName'' JNull)"
      and "fst (delete_media_blob e (dict_get d ''blobName'' JNull) s) = Inr ()"
      and "\<not> faults e (DeleteItem mc (JStr mid) (JStr uid))"
  shows "fst (deleteMedia e req s) = Inr (HttpResponse NoBody 204 None)
         \<and> find (item_matches (JStr mid) (JStr uid)) (containers (snd (deleteMedia e req s)) mc) = None
         \<and> (\<exists>bc b. get_blob_container e = Inr bc \<and> dict_get d ''blobName'' JNull = JStr b
               \<and> blobs (snd (deleteMedia e req s)) (bc, b) = None
               \<and> calls (snd (deleteMedia e req s))
                   = calls s @ [ReadItem mc (JStr mid) (JStr uid), DeleteBlob bc b,
                                DeleteItem mc (JStr mid) (JStr uid)])"
proof -
  from deleteMedia_blob_deleted[OF assms(1-9)] obtain bc b where
    bc: "get_blob_container e = Inr bc" and b: "dict_get d ''blobName'' JNull = JStr b"
    and dm: "deleteMedia e req s =
             (case delete_item e mc (JStr mid) (JStr uid)
                ((logged (DeleteBlob bc b) (logged (ReadItem mc (JStr mid) (JStr uid)) s))
                   \<lparr>blobs := (blobs s)((bc, b) := None)\<rparr>) of
                (Inl _, s3) \<Rightarrow> (Inr (text_response ''failed to delete cosmos document'' 500), s3)
              | (Inr _, s3) \<Rightarrow> (Inr (HttpResponse NoBody 204 None), s3))"
    by blast
  have ex: "list_ex (item_matches (JStr mid) (JStr uid))
     (containers ((logged (DeleteBlob bc b) (logged (ReadItem mc (JStr mid) (JStr uid)) s))
                   \<lparr>blobs := (blobs s)((bc, b) := None)\<rparr>) mc)"
    using find_Some_list_ex[OF assms(7)] by simp
  show ?thesis
    using bc b by (simp add: dm delete_item_ok[OF assms(10) ex] find_filter_not)
qed

text \<open>
  Claim C1. A \<open>deleteMedia\<close> request with both parameters, in an environment that names
  the media container, goes through these steps in this order.
  \<^item> The point read of the media item fails (a dependency failure, or no document with
    that id in the partition of that user): 404, and the read is the only store call.
  \<^item> The document is found and has no \<open>blobName\<close> (or one Python counts as false): 500,
    and the read is the only store call, so no deletion has been attempted.
  \<^item> The deletion of the blob fails: 500, and the containers and the blobs are what they
    were, so the media document is still there.
  \<^item> The blob is deleted and the deletion of the document fails: 500; the blob is gone
    and the document is still there.
  \<^item> Both deletions succeed: 204 without a body; the document and the blob are gone, and
    the calls were the read, the deletion of the blob, the deletion of the document.
\<close>

theorem deleteMedia_sequence:
  assumes "params req ''userId'' = Some uid" "uid \<noteq> []"
      and "params req ''mediaId'' = Some mid" "mid \<noteq> []"
      and "get_cosmos_container e ''COSMOS_MEDIA_CONTAINER'' = Inr mc"
  shows
    "(faults e (ReadItem mc (JStr mid) (JStr uid))
        \<or> find (item_matches (JStr mid) (JStr uid)) (containers s mc) = None \<longrightarrow>
      deleteMedia e req s =
        (Inr (text_response ''media not found'' 404), logged (ReadItem mc (JStr mid) (JStr uid)) s))
     \<and> (\<not> faults e (ReadItem mc (JStr mid) (JStr uid))
        \<and> find (item_matches (JStr mid) (JStr uid)) (containers s mc) = Some d \<longrightarrow>
         (map_of d ''blobName'' = None \<or> \<not> truthy (dict_get d ''blobName'' JNull) \<longrightarrow>
            deleteMedia e req s =
              (Inr (text_response ''media record missing blobname'' 500),
               logged (ReadItem mc (JStr mid) (JStr uid)) s))
       \<and> (truthy (dict_get d ''blobName'' JNull) \<longrightarrow>
            (fst (delete_media_blob e (dict_get d ''blobName'' JNull) s) = Inl x \<longrightarrow>
               fst (deleteMedia e req s) = Inr (text_response ''failed to delete media blob'' 500)
               \<and> containers (snd (deleteMedia e req s)) = containers s
               \<and> blobs (snd (deleteMedia e req s)) = blobs s)
          \<and> (fst (delete_media_blob e (dict_get d ''blobName'' JNull) s) = Inr () \<longrightarrow>
               (faults e (DeleteItem mc (JStr mid) (JStr uid)) \<longrightarrow>
                  fst (deleteMedia e req s)
                    = Inr (text_response ''failed to delete cosmos document'' 500)
                  \<and> containers (snd (deleteMedia e req s)) = containers s
                  \<and> (\<exists>bc b. get_blob_container e = Inr bc
                        \<and> dict_get d ''blobName'' JNull = JStr b
                        \<and> blobs (snd (deleteMedia e req s)) = (blobs s)((bc, b) := None)))
             \<and> (\<not> faults e (DeleteItem mc (JStr mid) (JStr uid)) \<longrightarrow>
                  fst (deleteMedia e req s) = Inr (HttpResponse NoBody 204 None)
                  \<and> find (item_matches (JStr mid) (JStr uid))
                       (containers (snd (deleteMedia e req s)) mc) = None
                  \<and> (\<exists>bc b. get_blob_container e = Inr bc
                        \<and> dict_get d ''blobName'' JNull = JStr b
                        \<and> blobs (snd (deleteMedia e req s)) (bc, b) = None
                        \<and> calls (snd (deleteMedia e req s))
                            = calls s @ [ReadItem mc (JStr mid) (JStr uid), DeleteBlob bc b,
                                         DeleteItem mc (JStr mid) (JStr uid)])))))"
  using deleteMedia_read_fails[OF assms] deleteMedia_no_blobName[OF assms]
    deleteMedia_blob_fails[OF assms] deleteMedia_doc_fails[OF assms] deleteMedia_done[OF assms]
  by blast

theorem deleteMedia_sequence_witness:
  "deleteMedia demo_env delete_media_req empty_store
     = (Inr (text_response ''media not found'' 404),
        logged (ReadItem ''media'' (JStr ''m1'') (JStr ''u1'')) empty_store)
   \<and> deleteMedia demo_env delete_media_req corrupt_store
     = (Inr (text_response ''media record missing blobname'' 500),
        logged (ReadItem ''media'' (JStr ''m1'') (JStr ''u1'')) corrupt_store)
   \<and> fst (deleteMedia (failing (DeleteBlob ''files'' ''u1/m1-a.png'')) delete_media_req media_store)
     = Inr (text_response ''failed to delete media blob'' 500)
   \<and> containers (snd (deleteMedia (failing (DeleteBlob ''files'' ''u1/m1-a.png''))
        delete_media_req media_store)) = containers media_store
   \<and> fst (deleteMedia (failing (DeleteItem ''media'' (JStr ''m1'') (JStr ''u1'')))
        delete_media_req media_store)
     = Inr (text_response ''failed to delete cosmos document'' 500)
   \<and> fst (deleteMedia demo_env delete_media_req media_store) = Inr (HttpResponse NoBody 204 None)
   \<and> find (item_matches (JStr ''m1'') (JStr ''u1''))
        (containers (snd (deleteMedia demo_env delete_media_req media_store)) ''media'') = None"
proof -
  have p: "params delete_media_req ''userId'' = Some ''u1''" "''u1'' \<noteq> []"
    "params delete_media_req ''mediaId'' = Some ''m1''" "''m1'' \<noteq> []"
    by (simp_all add: delete_media_req_def)
  have f: "find (item_matches (JStr ''m1'') (JStr ''u1'')) (containers media_store ''media'')
             = Some media_doc1"
    by (simp add: media_store_def media_doc1_def item_matches_def)
  have bn: "dict_get media_doc1 ''blobName'' JNull = JStr ''u1/m1-a.png''"
    by (simp add: media_doc1_def dict_get_def)
  note a = deleteMedia_sequence[OF p demo_config(1), of empty_store]
  note b = deleteMedia_sequence[OF p demo_config(1), of corrupt_store
      "[(''id'', JStr ''m1''), (''userId'', JStr ''u1'')]"]
  note c = deleteMedia_sequence[OF p failing_config(1), of "DeleteBlob ''files'' ''u1/m1-a.png''"
      media_store media_doc1 ServiceError]
  note d = deleteMedia_sequence[OF p failing_config(1),
      of "DeleteItem ''media'' (JStr ''m1'') (JStr ''u1'')" media_store media_doc1]
  note e = deleteMedia_sequence[OF p demo_config(1), of media_store media_doc1]
  have A: "deleteMedia demo_env delete_media_req empty_store
     = (Inr (text_response ''media not found'' 404),
        logged (ReadItem ''media'' (JStr ''m1'') (JStr ''u1'')) empty_store)"
    using a by (simp add: empty_store_def)
  have B: "deleteMedia demo_env delete_media_req corrupt_store
     = (Inr (text_response ''media record missing blobname'' 500),
        logged (ReadItem ''media'' (JStr ''m1'') (JStr ''u1'')) corrupt_store)"
    using b by (simp add: corrupt_store_def item_matches_def demo_env_def)
  have C: "fst (deleteMedia (failing (DeleteBlob ''files'' ''u1/m1-a.png'')) delete_media_req media_store)
     = Inr (text_response ''failed to delete media blob'' 500)
    \<and> containers (snd (deleteMedia (failing (DeleteBlob ''files'' ''u1/m1-a.png''))
        delete_media_req media_store)) = containers media_store"
    using c f bn
    by (simp add: failing_def delete_media_blob_def delete_blob_def failing_config[unfolded failing_def])
  have okb: "fst (delete_media_blob e' (JStr ''u1/m1-a.png'') media_store) = Inr ()"
    if "get_blob_container e' = Inr ''files''" "\<not> faults e' (DeleteBlob ''files'' ''u1/m1-a.png'')" for e'
    using that by (simp add: delete_media_blob_def delete_blob_def media_store_def)
  have D: "fst (deleteMedia (failing (DeleteItem ''media'' (JStr ''m1'') (JStr ''u1'')))
        delete_media_req media_store)
     = Inr (text_response ''failed to delete cosmos document'' 500)"
    using d f bn okb[of "failing (DeleteItem ''media'' (JStr ''m1'') (JStr ''u1''))"]
    by (simp add: failing_config) (simp add: failing_def)
  have E: "fst (deleteMedia demo_env delete_media_req media_store) = Inr (HttpResponse NoBody 204 None)
   \<and> find (item_matches (JStr ''m1'') (JStr ''u1''))
        (containers (snd (deleteMedia demo_env delete_media_req media_store)) ''media'') = None"
    using e f bn okb[of demo_env]
    by (simp add: demo_config) (simp add: demo_env_def)
  show ?thesis using A B C D E by simp
qed

section \<open>createPost: the lookups of the media\<close>

lemma read_item_same_containers:
  "containers s' = containers s \<Longrightarrow> fst (read_item e c m pk s') = fst (read_item e c m pk s)"
  by (simp add: read_item_def Let_def split: json.splits option.splits)

lemma read_item_found:
  assumes "fst (read_item e c m pk s) = Inr d"
  shows "d \<in> set (containers s c) \<and> map_of d ''id'' = Some m"
  using assms
  by (auto simp add: read_item_def Let_def item_matches_def find_Some_iff
      split: json.splits option.splits if_splits)

lemma read_item_absent:
  assumes "\<not> list_ex (item_matches m pk) (containers s c)"
  shows "isl (fst (read_item e c m pk s))"
  using assms
  by (auto simp add: read_item_def Let_def list_ex_iff find_Some_iff
      split: json.splits option.splits)

lemma media_ref_ok:
  assumes "map_of d ''id'' = Some m" "map_of d ''blobName'' = Some bn"
  shows "media_ref d =
           Inr (JObj [(''mediaId'', m), (''blobName'', bn),
                      (''contentType'', dict_get d ''contentType'' JNull)])"
  using assms by (simp add: media_ref_def dict_item_def)

lemma media_ref_no_blobName:
  assumes "map_of d ''blobName'' = None"
  shows "media_ref d = Inl KeyError"
  using assms by (simp add: media_ref_def dict_item_def split: option.splits)

lemma media_loop_frame:
  "containers (snd (media_loop e mc uid ms acc s)) = containers s
   \<and> blobs (snd (media_loop e mc uid ms acc s)) = blobs s"
proof (induction ms arbitrary: acc s)
  case Nil
  then show ?case by simp
next
  case (Cons m ms)
  obtain r s1 where r: "read_item e mc m uid s = (r, s1)"
    by (cases "read_item e mc m uid s")
  have s1: "containers s1 = containers s" "blobs s1 = blobs s"
    using read_item_frame[of e mc m uid s] r by simp_all
  show ?case
    using Cons.IH[of _ s1] s1 r by (simp split: sum.splits)
qed

text \<open>The reference made from the document that the read of \<open>m\<close> returns.\<close>

lemma media_loop_step_ok:
  assumes "fst (read_item e mc m uid s) = Inr d" "media_ref d = Inr r"
  shows "media_loop e mc uid (m # ms) acc s
           = media_loop e mc uid ms (acc @ [r]) (snd (read_item e mc m uid s))"
  using assms by (cases "read_item e mc m uid s") simp

lemma media_loop_step_fail:
  assumes "isl (fst (read_item e mc m uid s))"
  shows "media_loop e mc uid (m # ms) acc s
           = (Return (HttpResponse (FText ''media not found or not owned by user: '' m) 404 None),
              snd (read_item e mc m uid s))"
  using assms by (cases "read_item e mc m uid s") (auto simp add: isl_def)

lemma media_loop_step_raise:
  assumes "fst (read_item e mc m uid s) = Inr d" "media_ref d = Inl x"
  shows "media_loop e mc uid (m # ms) acc s = (Raise x, snd (read_item e mc m uid s))"
  using assms by (cases "read_item e mc m uid s") simp

lemma media_loop_prefix:
  assumes "list_all2 (\<lambda>m r. \<exists>d. fst (read_item e mc m uid s0) = Inr d \<and> media_ref d = Inr r) pre refs"
      and "containers s = containers s0"
  shows "\<exists>s1. containers s1 = containers s0 \<and> blobs s1 = blobs s
           \<and> media_loop e mc uid (pre @ rest) acc s = media_loop e mc uid rest (acc @ refs) s1"
  using assms
proof (induction pre refs arbitrary: acc s rule: list_all2_induct)
  case Nil
  then show ?case by auto
next
  case (Cons m pre r refs)
  from Cons.hyps(1) obtain d where "fst (read_item e mc m uid s0) = Inr d" and mr: "media_ref d = Inr r"
    by blast
  then have d: "fst (read_item e mc m uid s) = Inr d"
    by (simp add: read_item_same_containers[OF Cons.prems])
  let ?s1 = "snd (read_item e mc m uid s)"
  have fr: "containers ?s1 = containers s0" "blobs ?s1 = blobs s"
    using Cons.prems by (simp_all add: read_item_frame)
  from Cons.IH[OF fr(1), of "acc @ [r]"] obtain s2 where
    "containers s2 = containers s0" "blobs s2 = blobs ?s1"
    "media_loop e mc uid (pre @ rest) (acc @ [r]) ?s1 = media_loop e mc uid rest ((acc @ [r]) @ refs) s2"
    by blast
  then show ?case
    using fr media_loop_step_ok[OF d mr, of "pre @ rest" acc] by auto
qed

lemma media_loop_all_ok:
  assumes "list_all2 (\<lambda>m r. \<exists>d. fst (read_item e mc m uid s) = Inr d \<and> media_ref d = Inr r) ms refs"
  shows "fst (media_loop e mc uid ms [] s) = Next refs"
proof -
  from media_loop_prefix[OF assms refl, of "[]" "[]"] show ?thesis
    by auto
qed

lemma media_loop_first_failure:
  assumes "list_all2 (\<lambda>m r. \<exists>d. fst (read_item e mc m uid s) = Inr d \<and> media_ref d = Inr r) pre refs"
      and "isl (fst (read_item e mc m uid s))"
  shows "fst (media_loop e mc uid (pre @ m # rest) [] s)
           = Return (HttpResponse (FText ''media not found or not owned by user: '' m) 404 None)"
proof -
  from media_loop_prefix[OF assms(1) refl, of "m # rest" "[]"] obtain s1 where
    s1: "containers s1 = containers s"
    and eq: "media_loop e mc uid (pre @ m # rest) [] s = media_loop e mc uid (m # rest) refs s1"
    by auto
  have "isl (fst (read_item e mc m uid s1))"
    using assms(2) by (simp add: read_item_same_containers[OF s1])
  then show ?thesis
    by (simp add: eq media_loop_step_fail del: media_loop.simps)
qed

lemma media_loop_first_raise:
  assumes "list_all2 (\<lambda>m r. \<exists>d. fst (read_item e mc m uid s) = Inr d \<and> media_ref d = Inr r) pre refs"
      and "fst (read_item e mc m uid s) = Inr d" "media_ref d = Inl x"
  shows "fst (media_loop e mc uid (pre @ m # rest) [] s) = Raise x"
proof -
  from media_loop_prefix[OF assms(1) refl, of "m # rest" "[]"] obtain s1 where
    s1: "containers s1 = containers s"
    and eq: "media_loop e mc uid (pre @ m # rest) [] s = media_loop e mc uid (m # rest) refs s1"
    by auto
  have "fst (read_item e mc m uid s1) = Inr d"
    using assms(2) by (simp add: read_item_same_containers[OF s1])
  then show ?thesis
    by (simp add: eq media_loop_step_raise[OF _ assms(3)] del: media_loop.simps)
qed

lemma py_iter_truthy: "py_iter v = Inr ms \<Longrightarrow> truthy v \<longleftrightarrow> ms \<noteq> []"
  by (cases v) auto

lemma collect_media_iter:
  assumes "py_iter media = Inr ms"
      and "ms \<noteq> [] \<longrightarrow> get_cosmos_container e ''COSMOS_MEDIA_CONTAINER'' = Inr mc"
  shows "collect_media e media uid s = media_loop e mc uid ms [] s"
  using assms py_iter_truthy[OF assms(1)] by (cases "ms = []") (simp_all add: collect_media_def)

lemma collect_media_frame:
  "containers (snd (collect_media e media uid s)) = containers s
   \<and> blobs (snd (collect_media e media uid s)) = blobs s"
  by (simp add: collect_media_def media_loop_frame split: sum.splits)

lemma createPost_object:
  assumes "json_body req = Some (JObj kvs)"
  shows "createPost e req s =
     (case collect_media e (dict_get kvs ''media'' (JArr [])) (dict_get kvs ''userId'' JNull) s of
        (Raise x, s1) \<Rightarrow> (Inl x, s1)
      | (Return r, s1) \<Rightarrow> (Inr r, s1)
      | (Next media_refs, s1) \<Rightarrow>
          (case get_cosmos_container e ''COSMOS_POST_CONTAINER'' of
             Inl x \<Rightarrow> (Inl x, s1)
           | Inr pc \<Rightarrow>
             (case create_item e pc
                     [(''id'', JStr (uuid4 e)),
                      (''userId'', dict_get kvs ''userId'' JNull),
                      (''title'', dict_get kvs ''title'' JNull),
                      (''caption'', dict_get kvs ''caption'' (JStr [])),
                      (''media'', JArr media_refs),
                      (''createdAt'', JStr (utcnow_iso e))] s1 of
                (Inl x, s2) \<Rightarrow> (Inl x, s2)
              | (Inr _, s2) \<Rightarrow>
                  (Inr (json_response
                     (JObj [(''id'', JStr (uuid4 e)),
                            (''userId'', dict_get kvs ''userId'' JNull),
                            (''title'', dict_get kvs ''title'' JNull),
                            (''caption'', dict_get kvs ''caption'' (JStr [])),
                            (''media'', JArr media_refs),
                            (''createdAt'', JStr (utcnow_iso e))]) 201), s2))))"
proof -
  obtain fl s1 where c:
    "collect_media e (dict_get kvs ''media'' (JArr [])) (dict_get kvs ''userId'' JNull) s = (fl, s1)"
    by (cases "collect_media e (dict_get kvs ''media'' (JArr [])) (dict_get kvs ''userId'' JNull) s")
  show ?thesis
    by (cases fl) (simp_all add: createPost_def body_get_def assms c Let_def)
qed

lemma createPost_returns:
  assumes "json_body req = Some (JObj kvs)"
      and "fst (collect_media e (dict_get kvs ''media'' (JArr [])) (dict_get kvs ''userId'' JNull) s)
             = Return r"
  shows "fst (createPost e req s) = Inr r
         \<and> containers (snd (createPost e req s)) = containers s
         \<and> blobs (snd (createPost e req s)) = blobs s"
proof -
  let ?c = "collect_media e (dict_get kvs ''media'' (JArr [])) (dict_get kvs ''userId'' JNull) s"
  obtain s1 where c: "?c = (Return r, s1)"
    using assms(2) by (cases ?c) simp
  have "containers s1 = containers s" "blobs s1 = blobs s"
    using collect_media_frame[of e "dict_get kvs ''media'' (JArr [])" "dict_get kvs ''userId'' JNull" s] c
    by simp_all
  then show ?thesis
    by (simp add: createPost_object[OF assms(1)] c)
qed

lemma createPost_raises:
  assumes "json_body req = Some (JObj kvs)"
      and "fst (collect_media e (dict_get kvs ''media'' (JArr [])) (dict_get kvs ''userId'' JNull) s)
             = Raise x"
  shows "fst (createPost e req s) = Inl x
         \<and> containers (snd (createPost e req s)) = containers s
         \<and> blobs (snd (createPost e req s)) = blobs s"
proof -
  let ?c = "collect_media e (dict_get kvs ''media'' (JArr [])) (dict_get kvs ''userId'' JNull) s"
  obtain s1 where c: "?c = (Raise x, s1)"
    using assms(2) by (cases ?c) simp
  have "containers s1 = containers s" "blobs s1 = blobs s"
    using collect_media_frame[of e "dict_get kvs ''media'' (JArr [])" "dict_get kvs ''userId'' JNull" s] c
    by simp_all
  then show ?thesis
    by (simp add: createPost_object[OF assms(1)] c)
qed

lemma read_ok_ref:
  assumes "fst (read_item e mc m uid s) = Inr d" "map_of d ''blobName'' = Some bn"
  shows "media_ref d = Inr (JObj [(''mediaId'', m), (''blobName'', bn),
                                  (''contentType'', dict_get d ''contentType'' JNull)])"
  using read_item_found[OF assms(1)] assms(2) by (simp add: media_ref_ok)

lemma refs_of_reads:
  assumes "\<forall>m\<in>set ms. \<exists>d. fst (read_item e mc m uid s) = Inr d \<and> map_of d ''blobName'' \<noteq> None"
  shows "\<exists>refs. list_all2
           (\<lambda>m r. \<exists>d. fst (read_item e mc m uid s) = Inr d \<and> media_ref d = Inr r) ms refs"
  using assms
proof (induction ms)
  case Nil
  then show ?case by simp
next
  case (Cons m ms)
  have "\<forall>m\<in>set ms. \<exists>d. fst (read_item e mc m uid s) = Inr d \<and> map_of d ''blobName'' \<noteq> None"
    using Cons.prems by simp
  from Cons.IH[OF this] obtain refs where
    refs: "list_all2 (\<lambda>m r. \<exists>d. fst (read_item e mc m uid s) = Inr d \<and> media_ref d = Inr r) ms refs"
    by (rule exE)
  have "\<exists>d. fst (read_item e mc m uid s) = Inr d \<and> map_of d ''blobName'' \<noteq> None"
    using Cons.prems by simp
  then obtain d where d: "fst (read_item e mc m uid s) = Inr d" and "map_of d ''blobName'' \<noteq> None"
    by (elim exE conjE)
  then obtain bn where bn: "map_of d ''blobName'' = Some bn"
    by (cases "map_of d ''blobName''") simp_all
  let ?r = "JObj [(''mediaId'', m), (''blobName'', bn),
                  (''contentType'', dict_get d ''contentType'' JNull)]"
  have "\<exists>d. fst (read_item e mc m uid s) = Inr d \<and> media_ref d = Inr ?r"
    using d read_ok_ref[OF d bn] by (intro exI[of _ d] conjI)
  with refs have
    "list_all2 (\<lambda>m r. \<exists>d. fst (read_item e mc m uid s) = Inr d \<and> media_ref d = Inr r)
       (m # ms) (?r # refs)"
    by simp
  then show ?case
    by (rule exI)
qed

lemma snapshots_of_reads:
  assumes "\<forall>m\<in>set ms. \<exists>d. fst (read_item e mc m uid s) = Inr d \<and> map_of d ''blobName'' \<noteq> None"
  shows "\<exists>refs. list_all2
           (\<lambda>m r. \<exists>d bn. fst (read_item e mc m uid s) = Inr d \<and> map_of d ''blobName'' = Some bn
              \<and> r = JObj [(''mediaId'', m), (''blobName'', bn),
                          (''contentType'', dict_get d ''contentType'' JNull)]) ms refs"
  using assms
proof (induction ms)
  case Nil
  then show ?case by simp
next
  case (Cons m ms)
  let ?Q = "\<lambda>m r. \<exists>d bn. fst (read_item e mc m uid s) = Inr d \<and> map_of d ''blobName'' = Some bn
              \<and> r = JObj [(''mediaId'', m), (''blobName'', bn),
                          (''contentType'', dict_get d ''contentType'' JNull)]"
  have "\<forall>m\<in>set ms. \<exists>d. fst (read_item e mc m uid s) = Inr d \<and> map_of d ''blobName'' \<noteq> None"
    using Cons.prems by simp
  from Cons.IH[OF this] obtain refs where refs: "list_all2 ?Q ms refs"
    by (rule exE)
  have "\<exists>d. fst (read_item e mc m uid s) = Inr d \<and> map_of d ''blobName'' \<noteq> None"
    using Cons.prems by simp
  then obtain d where d: "fst (read_item e mc m uid s) = Inr d" and "map_of d ''blobName'' \<noteq> None"
    by (elim exE conjE)
  then obtain bn where bn: "map_of d ''blobName'' = Some bn"
    by (cases "map_of d ''blobName''") simp_all
  have "?Q m (JObj [(''mediaId'', m), (''blobName'', bn),
                    (''contentType'', dict_get d ''contentType'' JNull)])"
    using d bn by (intro exI[of _ d] exI[of _ bn]) simp
  with refs have "list_all2 ?Q (m # ms)
     (JObj [(''mediaId'', m), (''blobName'', bn),
            (''contentType'', dict_get d ''contentType'' JNull)] # refs)"
    by simp
  then show ?case
    by (rule exI)
qed

lemma snapshots_are_refs:
  assumes "list_all2
           (\<lambda>m r. \<exists>d bn. fst (read_item e mc m uid s) = Inr d \<and> map_of d ''blobName'' = Some bn
              \<and> r = JObj [(''mediaId'', m), (''blobName'', bn),
                          (''contentType'', dict_get d ''contentType'' JNull)]) ms refs"
  shows "list_all2 (\<lambda>m r. \<exists>d. fst (read_item e mc m uid s) = Inr d \<and> media_ref d = Inr r) ms refs"
  using assms
proof (rule list_all2_mono)
  fix m r
  assume "\<exists>d bn. fst (read_item e mc m uid s) = Inr d \<and> map_of d ''blobName'' = Some bn
              \<and> r = JObj [(''mediaId'', m), (''blobName'', bn),
                          (''contentType'', dict_get d ''contentType'' JNull)]"
  then obtain d bn where d: "fst (read_item e mc m uid s) = Inr d"
    and bn: "map_of d ''blobName'' = Some bn"
    and r: "r = JObj [(''mediaId'', m), (''blobName'', bn),
                      (''contentType'', dict_get d ''contentType'' JNull)]"
    by (elim exE conjE)
  show "\<exists>d. fst (read_item e mc m uid s) = Inr d \<and> media_ref d = Inr r"
    using d read_ok_ref[OF d bn] r by (intro exI[of _ d]) simp
qed

lemma same_item_post:
  assumes "map_of d ''id'' = Some i" "map_of d ''userId'' = Some u"
  shows "same_item d = item_matches i u"
  using assms by (auto simp add: same_item_def item_matches_def fun_eq_iff)

lemma create_item_ok:
  assumes "\<not> faults e (CreateItem c d)" "\<not> list_ex (same_item d) (containers s c)"
  shows "create_item e c d s =
           (Inr (), (logged (CreateItem c d) s)\<lparr>containers := (containers s)(c := containers s c @ [d])\<rparr>)"
  using assms by (simp add: create_item_def Let_def)

lemma createPost_created:
  assumes "json_body req = Some (JObj kvs)"
      and "fst (collect_media e (dict_get kvs ''media'' (JArr [])) (dict_get kvs ''userId'' JNull) s)
             = Next refs"
      and "get_cosmos_container e ''COSMOS_POST_CONTAINER'' = Inr pc"
      and "\<forall>d. \<not> faults e (CreateItem pc d)"
      and "\<not> list_ex (item_matches (JStr (uuid4 e)) (dict_get kvs ''userId'' JNull)) (containers s pc)"
  shows "fst (createPost e req s) =
           Inr (json_response
             (JObj [(''id'', JStr (uuid4 e)),
                    (''userId'', dict_get kvs ''userId'' JNull),
                    (''title'', dict_get kvs ''title'' JNull),
                    (''caption'', dict_get kvs ''caption'' (JStr [])),
                    (''media'', JArr refs),
                    (''createdAt'', JStr (utcnow_iso e))]) 201)
         \<and> containers (snd (createPost e req s)) =
             (containers s)(pc := containers s pc @
               [[(''id'', JStr (uuid4 e)),
                 (''userId'', dict_get kvs ''userId'' JNull),
                 (''title'', dict_get kvs ''title'' JNull),
                 (''caption'', dict_get kvs ''caption'' (JStr [])),
                 (''media'', JArr refs),
                 (''createdAt'', JStr (utcnow_iso e))]])
         \<and> blobs (snd (createPost e req s)) = blobs s"
proof -
  let ?uid = "dict_get kvs ''userId'' JNull"
  let ?c = "collect_media e (dict_get kvs ''media'' (JArr [])) ?uid s"
  let ?post = "[(''id'', JStr (uuid4 e)),
                (''userId'', ?uid),
                (''title'', dict_get kvs ''title'' JNull),
                (''caption'', dict_get kvs ''caption'' (JStr [])),
                (''media'', JArr refs),
                (''createdAt'', JStr (utcnow_iso e))]"
  obtain s1 where c: "?c = (Next refs, s1)"
    using assms(2) by (cases ?c) simp
  have s1: "containers s1 = containers s" "blobs s1 = blobs s"
    using collect_media_frame[of e "dict_get kvs ''media'' (JArr [])" ?uid s] c
    by simp_all
  have si: "same_item ?post = item_matches (JStr (uuid4 e)) ?uid"
    by (rule same_item_post) simp_all
  have "\<not> list_ex (same_item ?post) (containers s1 pc)"
    using assms(5) by (simp add: si s1)
  from create_item_ok[OF assms(4)[rule_format] this]
  have "create_item e pc ?post s1 =
          (Inr (), (logged (CreateItem pc ?post) s1)
             \<lparr>containers := (containers s1)(pc := containers s1 pc @ [?post])\<rparr>)" .
  then show ?thesis
    by (simp add: createPost_object[OF assms(1)] c assms(3) s1)
qed

lemma media_loop_return:
  "fst (media_loop e mc uid ms acc s) = Return r \<Longrightarrow> status_code r = 404"
proof (induction ms arbitrary: acc s)
  case Nil
  then show ?case by simp
next
  case (Cons m ms)
  obtain x s1 where rd: "read_item e mc m uid s = (x, s1)"
    by (cases "read_item e mc m uid s")
  show ?case
  proof (cases x)
    case (Inl a)
    with Cons.prems rd show ?thesis by auto
  next
    case (Inr d)
    show ?thesis
    proof (cases "media_ref d")
      case (Inl a)
      with Cons.prems rd \<open>x = Inr d\<close> show ?thesis by simp
    next
      case (Inr ref)
      with Cons.prems rd \<open>x = Inr d\<close>
      have "fst (media_loop e mc uid ms (acc @ [ref]) s1) = Return r" by simp
      then show ?thesis by (rule Cons.IH)
    qed
  qed
qed

lemma collect_media_return:
  "fst (collect_media e media uid s) = Return r \<Longrightarrow> status_code r = 404"
  by (auto simp add: collect_media_def media_loop_return split: if_splits sum.splits)

lemma collect_media_none:
  "\<not> truthy media \<Longrightarrow> collect_media e media uid s = (Next [], s)"
  by (simp add: collect_media_def)

lemma createPost_status:
  assumes "json_body req = Some b" "fst (createPost e req s) = Inr r"
  shows "status_code r = 404 \<or> status_code r = 201"
proof (cases b)
  case (JObj kvs)
  let ?c = "collect_media e (dict_get kvs ''media'' (JArr [])) (dict_get kvs ''userId'' JNull) s"
  obtain fl s1 where c: "?c = (fl, s1)"
    by (cases ?c)
  have obj: "json_body req = Some (JObj kvs)"
    using assms(1) JObj by simp
  show ?thesis
  proof (cases fl)
    case (Raise x)
    with assms(2) c show ?thesis
      by (simp add: createPost_object[OF obj])
  next
    case (Return r')
    with c have "fst ?c = Return r'" by simp
    from collect_media_return[OF this] assms(2) c Return show ?thesis
      by (simp add: createPost_object[OF obj])
  next
    case (Next refs)
    with assms(2) c show ?thesis
      by (auto simp add: createPost_object[OF obj] json_response_def split: sum.splits prod.splits)
  qed
qed (use assms in \<open>simp_all add: createPost_def body_get_def\<close>)

section \<open>createPost: a media id that cannot be read\<close>

text \<open>
  The media collection holds the document \<open>m2\<close> of \<open>u1\<close>, which has no \<open>blobName\<close>,
  and no document \<open>ghost\<close>. A post of \<open>u1\<close> with the media \<open>[m2, ghost]\<close> references an
  id that is missing, yet the response is not a 404: the subscript
  \<open>media_doc["blobName"]\<close> of the first id raises \<open>KeyError\<close> before the missing id is
  looked up.
\<close>

theorem createPost_missing_media_counterexample:
  "\<not> list_ex (item_matches (JStr ''ghost'') (JStr ''u1'')) (containers mixed_store ''media'')
   \<and> fst (createPost post_env
         (post_req [(''userId'', JStr ''u1''), (''title'', JStr ''T''),
                    (''media'', JArr [JStr ''m2'', JStr ''ghost''])]) mixed_store) = Inl KeyError"
proof -
  let ?kvs = "[(''userId'', JStr ''u1''), (''title'', JStr ''T''),
               (''media'', JArr [JStr ''m2'', JStr ''ghost''])]"
  have body: "json_body (post_req ?kvs) = Some (JObj ?kvs)"
    by (simp add: post_req_def)
  have rd: "fst (read_item post_env ''media'' (JStr ''m2'') (JStr ''u1'') mixed_store)
              = Inr [(''id'', JStr ''m2''), (''userId'', JStr ''u1'')]"
    by (simp add: read_item_str post_env_def demo_env_def mixed_store_def media_doc1_def
        item_matches_def)
  have mr: "media_ref [(''id'', JStr ''m2''), (''userId'', JStr ''u1'')] = Inl KeyError"
    by (rule media_ref_no_blobName) simp
  have "fst (media_loop post_env ''media'' (JStr ''u1'') ([] @ JStr ''m2'' # [JStr ''ghost'']) []
               mixed_store) = Raise KeyError"
    by (rule media_loop_first_raise[OF _ rd mr, of "[]"]) simp
  then have "fst (collect_media post_env (dict_get ?kvs ''media'' (JArr []))
                    (dict_get ?kvs ''userId'' JNull) mixed_store) = Raise KeyError"
    by (simp add: collect_media_def dict_get_def post_env_config del: media_loop.simps)
  from createPost_raises[OF body this]
  have "fst (createPost post_env (post_req ?kvs) mixed_store) = Inl KeyError"
    by simp
  moreover have
    "\<not> list_ex (item_matches (JStr ''ghost'') (JStr ''u1'')) (containers mixed_store ''media'')"
    by (simp add: mixed_store_def media_doc1_def item_matches_def)
  ultimately show ?thesis
    by simp
qed

text \<open>
  Claim C2, amended. Take a \<open>createPost\<close> request whose body is a JSON object and
  whose \<open>media\<close> is a sequence \<open>ms\<close>, in an environment that names the media container.
  If for at least one id of \<open>ms\<close> the media collection has no document with that id in
  the partition of the request's \<open>userId\<close> (the id is missing, or the item belongs to
  another user), then no container and no blob has changed, so no Post document has
  been written, and \<open>ms\<close> has a first id \<open>m\<close> that is not read as a document with a
  \<open>blobName\<close>, every id before it being read as one. Either the point read of \<open>m\<close>
  fails, and the response is the 404 that names \<open>m\<close>; or the read of \<open>m\<close> returns a
  document without \<open>blobName\<close>, and the request ends in the unhandled \<open>KeyError\<close>.
\<close>

theorem createPost_missing_media:
  assumes "json_body req = Some (JObj kvs)"
      and "py_iter (dict_get kvs ''media'' (JArr [])) = Inr ms"
      and "get_cosmos_container e ''COSMOS_MEDIA_CONTAINER'' = Inr mc"
      and "\<exists>m\<in>set ms. \<not> list_ex (item_matches m (dict_get kvs ''userId'' JNull)) (containers s mc)"
  shows "containers (snd (createPost e req s)) = containers s
         \<and> blobs (snd (createPost e req s)) = blobs s
         \<and> (\<exists>pre m rest. ms = pre @ m # rest
              \<and> (\<forall>x\<in>set pre. \<exists>d. fst (read_item e mc x (dict_get kvs ''userId'' JNull) s) = Inr d
                     \<and> map_of d ''blobName'' \<noteq> None)
              \<and> (isl (fst (read_item e mc m (dict_get kvs ''userId'' JNull) s))
                    \<and> fst (createPost e req s)
                        = Inr (HttpResponse (FText ''media not found or not owned by user: '' m) 404 None)
                  \<or> (\<exists>d. fst (read_item e mc m (dict_get kvs ''userId'' JNull) s) = Inr d
                        \<and> map_of d ''blobName'' = None)
                    \<and> fst (createPost e req s) = Inl KeyError))"
proof -
  let ?uid = "dict_get kvs ''userId'' JNull"
  let ?good = "\<lambda>x. \<exists>d. fst (read_item e mc x ?uid s) = Inr d \<and> map_of d ''blobName'' \<noteq> None"
  have "\<exists>m\<in>set ms. isl (fst (read_item e mc m ?uid s))"
    using assms(4) read_item_absent by blast
  then obtain m0 where m0: "m0 \<in> set ms" "isl (fst (read_item e mc m0 ?uid s))"
    by blast
  then have "\<not> ?good m0"
    by auto
  with m0 have "\<exists>m\<in>set ms. \<not> ?good m"
    by blast
  from split_list_first_prop[OF this] obtain pre m rest where
    ms: "ms = pre @ m # rest" and m: "\<not> ?good m" and pre: "\<forall>x\<in>set pre. \<not> \<not> ?good x"
    by blast
  from pre have pre': "\<forall>x\<in>set pre. ?good x"
    by simp
  from refs_of_reads[OF pre'] obtain refs where
    refs: "list_all2 (\<lambda>m r. \<exists>d. fst (read_item e mc m ?uid s) = Inr d \<and> media_ref d = Inr r) pre refs"
    by (rule exE)
  have loop: "collect_media e (dict_get kvs ''media'' (JArr [])) ?uid s
                = media_loop e mc ?uid (pre @ m # rest) [] s"
    using collect_media_iter[OF assms(2), of e mc ?uid s] assms(3) ms by simp
  show ?thesis
  proof (cases "fst (read_item e mc m ?uid s)")
    case (Inl x)
    then have fails: "isl (fst (read_item e mc m ?uid s))"
      by simp
    from media_loop_first_failure[OF refs fails, of rest]
    have "fst (collect_media e (dict_get kvs ''media'' (JArr [])) ?uid s)
            = Return (HttpResponse (FText ''media not found or not owned by user: '' m) 404 None)"
      by (simp add: loop)
    from createPost_returns[OF assms(1) this] ms pre' fails show ?thesis
      by (intro conjI exI[of _ pre] exI[of _ m] exI[of _ rest]) simp_all
  next
    case (Inr d)
    with m have nb: "map_of d ''blobName'' = None"
      by simp
    from media_loop_first_raise[OF refs Inr media_ref_no_blobName[OF nb], of rest]
    have "fst (collect_media e (dict_get kvs ''media'' (JArr [])) ?uid s) = Raise KeyError"
      by (simp add: loop)
    from createPost_raises[OF assms(1) this] ms pre' Inr nb show ?thesis
      by (intro conjI exI[of _ pre] exI[of _ m] exI[of _ rest]) simp_all
  qed
qed


theorem createPost_missing_media_witness:
  "fst (createPost post_env
         (post_req [(''userId'', JStr ''u1''), (''title'', JStr ''T''),
                    (''media'', JArr [JStr ''m1'', JStr ''ghost''])]) mixed_store)
     = Inr (HttpResponse (FText ''media not found or not owned by user: '' (JStr ''ghost'')) 404 None)
   \<and> containers (snd (createPost post_env
         (post_req [(''userId'', JStr ''u1''), (''title'', JStr ''T''),
                    (''media'', JArr [JStr ''m1'', JStr ''ghost''])]) mixed_store))
     = containers mixed_store"
proof -
  let ?kvs = "[(''userId'', JStr ''u1''), (''title'', JStr ''T''),
               (''media'', JArr [JStr ''m1'', JStr ''ghost''])]"
  let ?r = "fst (createPost post_env (post_req ?kvs) mixed_store)"
  have uid: "dict_get ?kvs ''userId'' JNull = JStr ''u1''"
    by (simp add: dict_get_def)
  have 1: "json_body (post_req ?kvs) = Some (JObj ?kvs)"
    by (simp add: post_req_def)
  have 2: "py_iter (dict_get ?kvs ''media'' (JArr [])) = Inr [JStr ''m1'', JStr ''ghost'']"
    by (simp add: dict_get_def)
  have 4: "\<exists>m\<in>set [JStr ''m1'', JStr ''ghost''].
             \<not> list_ex (item_matches m (dict_get ?kvs ''userId'' JNull)) (containers mixed_store ''media'')"
    by (simp add: uid mixed_store_def media_doc1_def item_matches_def)
  from createPost_missing_media[OF 1 2 post_env_config(1) 4] obtain pre m rest where
    c: "containers (snd (createPost post_env (post_req ?kvs) mixed_store)) = containers mixed_store"
    and ms: "[JStr ''m1'', JStr ''ghost''] = pre @ m # rest"
    and r: "isl (fst (read_item post_env ''media'' m (JStr ''u1'') mixed_store))
              \<and> ?r = Inr (HttpResponse (FText ''media not found or not owned by user: '' m) 404 None)
            \<or> (\<exists>d. fst (read_item post_env ''media'' m (JStr ''u1'') mixed_store) = Inr d
                  \<and> map_of d ''blobName'' = None)
              \<and> ?r = Inl KeyError"
    unfolding uid by blast
  have "m = JStr ''m1'' \<or> m = JStr ''ghost''"
    using ms by (cases pre) (auto simp add: Cons_eq_append_conv)
  then show ?thesis
  proof
    assume "m = JStr ''m1''"
    with r mixed_store_read_m1 have False
      by (simp add: media_doc1_def)
    then show ?thesis ..
  next
    assume "m = JStr ''ghost''"
    with r mixed_store_read_ghost c show ?thesis
      by simp
  qed
qed

section \<open>createPost: the media of the created post\<close>

text \<open>
  Claim C3. Take a \<open>createPost\<close> request whose body is a JSON object and whose
  \<open>media\<close> is a sequence \<open>ms\<close>, in an environment that names both containers. If the
  point read of every id of \<open>ms\<close> in the partition of the request's \<open>userId\<close> returns a
  MediaItem (a document with a \<open>blobName\<close>), and the post can be written (no dependency
  failure, and the fresh id is not taken), then the response is 201 with the created
  post, which is appended to the post collection. The post's \<open>media\<close> has the length of
  \<open>ms\<close>, and its \<open>i\<close>-th element is the reference \<open>{mediaId, blobName, contentType}\<close>
  whose fields are those of the document that the read of the \<open>i\<close>-th id returned.
\<close>

theorem createPost_media_snapshot:
  assumes "json_body req = Some (JObj kvs)"
      and "py_iter (dict_get kvs ''media'' (JArr [])) = Inr ms"
      and "get_cosmos_container e ''COSMOS_MEDIA_CONTAINER'' = Inr mc"
      and "get_cosmos_container e ''COSMOS_POST_CONTAINER'' = Inr pc"
      and "\<forall>m\<in>set ms. \<exists>d. fst (read_item e mc m (dict_get kvs ''userId'' JNull) s) = Inr d
              \<and> map_of d ''blobName'' \<noteq> None"
      and "\<forall>d. \<not> faults e (CreateItem pc d)"
      and "\<not> list_ex (item_matches (JStr (uuid4 e)) (dict_get kvs ''userId'' JNull)) (containers s pc)"
  shows "\<exists>post refs.
           fst (createPost e req s) = Inr (json_response (JObj post) 201)
           \<and> map_of post ''media'' = Some (JArr refs)
           \<and> length refs = length ms
           \<and> (\<forall>i<length ms. \<exists>d bn.
                 fst (read_item e mc (ms ! i) (dict_get kvs ''userId'' JNull) s) = Inr d
                 \<and> map_of d ''id'' = Some (ms ! i)
                 \<and> map_of d ''blobName'' = Some bn
                 \<and> refs ! i = JObj [(''mediaId'', ms ! i), (''blobName'', bn),
                                     (''contentType'', dict_get d ''contentType'' JNull)])
           \<and> containers (snd (createPost e req s)) = (containers s)(pc := containers s pc @ [post])"
proof -
  let ?uid = "dict_get kvs ''userId'' JNull"
  let ?Q = "\<lambda>m r. \<exists>d bn. fst (read_item e mc m ?uid s) = Inr d \<and> map_of d ''blobName'' = Some bn
              \<and> r = JObj [(''mediaId'', m), (''blobName'', bn),
                          (''contentType'', dict_get d ''contentType'' JNull)]"
  from snapshots_of_reads[OF assms(5)] obtain refs where refs: "list_all2 ?Q ms refs"
    by (rule exE)
  let ?post = "[(''id'', JStr (uuid4 e)),
                (''userId'', ?uid),
                (''title'', dict_get kvs ''title'' JNull),
                (''caption'', dict_get kvs ''caption'' (JStr [])),
                (''media'', JArr refs),
                (''createdAt'', JStr (utcnow_iso e))]"
  have "fst (media_loop e mc ?uid ms [] s) = Next refs"
    by (rule media_loop_all_ok[OF snapshots_are_refs[OF refs]])
  then have "fst (collect_media e (dict_get kvs ''media'' (JArr [])) ?uid s) = Next refs"
    using collect_media_iter[OF assms(2), of e mc ?uid s] assms(3) by simp
  from createPost_created[OF assms(1) this assms(4) assms(6) assms(7)]
  have created: "fst (createPost e req s) = Inr (json_response (JObj ?post) 201)"
    "containers (snd (createPost e req s)) = (containers s)(pc := containers s pc @ [?post])"
    by simp_all
  have len: "length refs = length ms"
    using refs by (simp add: list_all2_lengthD)
  have nth: "\<forall>i<length ms. \<exists>d bn.
                 fst (read_item e mc (ms ! i) ?uid s) = Inr d
                 \<and> map_of d ''id'' = Some (ms ! i)
                 \<and> map_of d ''blobName'' = Some bn
                 \<and> refs ! i = JObj [(''mediaId'', ms ! i), (''blobName'', bn),
                                     (''contentType'', dict_get d ''contentType'' JNull)]"
  proof (intro allI impI)
    fix i assume "i < length ms"
    with refs have "?Q (ms ! i) (refs ! i)"
      by (rule list_all2_nthD)
    then obtain d bn where d: "fst (read_item e mc (ms ! i) ?uid s) = Inr d"
      and bn: "map_of d ''blobName'' = Some bn"
      and r: "refs ! i = JObj [(''mediaId'', ms ! i), (''blobName'', bn),
                                     (''contentType'', dict_get d ''contentType'' JNull)]"
      by (elim exE conjE)
    from read_item_found[OF d] d bn r
    show "\<exists>d bn.
                 fst (read_item e mc (ms ! i) ?uid s) = Inr d
                 \<and> map_of d ''id'' = Some (ms ! i)
                 \<and> map_of d ''blobName'' = Some bn
                 \<and> refs ! i = JObj [(''mediaId'', ms ! i), (''blobName'', bn),
                                     (''contentType'', dict_get d ''contentType'' JNull)]"
      by (intro exI[of _ d] exI[of _ bn]) simp
  qed
  have media: "map_of ?post ''media'' = Some (JArr refs)"
    by simp
  from created media len nth show ?thesis
    by (intro exI[of _ ?post] exI[of _ refs] conjI)
qed

theorem createPost_media_snapshot_witness:
  "\<exists>post. fst (createPost post_env
         (post_req [(''userId'', JStr ''u1''), (''title'', JStr ''T''), (''media'', JArr [JStr ''m1''])])
         media_store) = Inr (json_response (JObj post) 201)
     \<and> map_of post ''media''
         = Some (JArr [JObj [(''mediaId'', JStr ''m1''), (''blobName'', JStr ''u1/m1-a.png''),
                             (''contentType'', JStr ''image/png'')]])
     \<and> containers (snd (createPost post_env
         (post_req [(''userId'', JStr ''u1''), (''title'', JStr ''T''), (''media'', JArr [JStr ''m1''])])
         media_store)) ''posts'' = [post]"
proof -
  let ?kvs = "[(''userId'', JStr ''u1''), (''title'', JStr ''T''), (''media'', JArr [JStr ''m1''])]"
  have uid: "dict_get ?kvs ''userId'' JNull = JStr ''u1''"
    by (simp add: dict_get_def)
  have 1: "json_body (post_req ?kvs) = Some (JObj ?kvs)"
    by (simp add: post_req_def)
  have 2: "py_iter (dict_get ?kvs ''media'' (JArr [])) = Inr [JStr ''m1'']"
    by (simp add: dict_get_def)
  have 5: "\<forall>m\<in>set [JStr ''m1'']. \<exists>d.
             fst (read_item post_env ''media'' m (dict_get ?kvs ''userId'' JNull) media_store) = Inr d
             \<and> map_of d ''blobName'' \<noteq> None"
    by (simp add: uid post_env_read_m1) (simp add: media_doc1_def)
  have 6: "\<forall>d. \<not> faults post_env (CreateItem ''posts'' d)"
    by (simp add: post_env_def demo_env_def)
  have 7: "\<not> list_ex (item_matches (JStr (uuid4 post_env)) (dict_get ?kvs ''userId'' JNull))
             (containers media_store ''posts'')"
    by (simp add: media_store_def)
  from createPost_media_snapshot[OF 1 2 post_env_config 5 6 7] obtain post refs where
    r: "fst (createPost post_env (post_req ?kvs) media_store) = Inr (json_response (JObj post) 201)"
    and m: "map_of post ''media'' = Some (JArr refs)"
    and len: "length refs = length [JStr ''m1'']"
    and nth: "\<forall>i<length [JStr ''m1'']. \<exists>d bn.
                 fst (read_item post_env ''media'' ([JStr ''m1''] ! i) (JStr ''u1'') media_store) = Inr d
                 \<and> map_of d ''id'' = Some ([JStr ''m1''] ! i)
                 \<and> map_of d ''blobName'' = Some bn
                 \<and> refs ! i = JObj [(''mediaId'', [JStr ''m1''] ! i), (''blobName'', bn),
                                     (''contentType'', dict_get d ''contentType'' JNull)]"
    and c: "containers (snd (createPost post_env (post_req ?kvs) media_store))
              = (containers media_store)(''posts'' := containers media_store ''posts'' @ [post])"
    unfolding uid by blast
  from nth have "refs ! 0 = JObj [(''mediaId'', JStr ''m1''), (''blobName'', JStr ''u1/m1-a.png''),
                             (''contentType'', JStr ''image/png'')]"
    by (simp add: post_env_read_m1) (simp add: media_doc1_def dict_get_def)
  with len have "refs = [JObj [(''mediaId'', JStr ''m1''), (''blobName'', JStr ''u1/m1-a.png''),
                             (''contentType'', JStr ''image/png'')]]"
    by (cases refs) simp_all
  with r m c show ?thesis
    by (intro exI[of _ post]) (simp add: media_store_def)
qed

section \<open>createPost: a media document without a blob name\<close>

text \<open>
  Claim C9. In \<open>createPost\<close>, let the reads of the media ids before \<open>m\<close> return
  MediaItems, and let the read of \<open>m\<close> return a document that has no \<open>blobName\<close>. The
  subscript \<open>media_doc["blobName"]\<close> stands after the \<open>try\<close> whose handler answers 404, so
  its \<open>KeyError\<close> leaves the handler as an unhandled exception (the generic 500 of the
  runtime) and not as a 404; no container and no blob has changed, so no Post document
  has been written.
\<close>

theorem createPost_media_without_blobName:
  assumes "json_body req = Some (JObj kvs)"
      and "py_iter (dict_get kvs ''media'' (JArr [])) = Inr (pre @ m # rest)"
      and "get_cosmos_container e ''COSMOS_MEDIA_CONTAINER'' = Inr mc"
      and "\<forall>x\<in>set pre. \<exists>d. fst (read_item e mc x (dict_get kvs ''userId'' JNull) s) = Inr d
              \<and> map_of d ''blobName'' \<noteq> None"
      and "fst (read_item e mc m (dict_get kvs ''userId'' JNull) s) = Inr d"
      and "map_of d ''blobName'' = None"
  shows "fst (createPost e req s) = Inl KeyError
         \<and> containers (snd (createPost e req s)) = containers s
         \<and> blobs (snd (createPost e req s)) = blobs s"
proof -
  let ?uid = "dict_get kvs ''userId'' JNull"
  from refs_of_reads[OF assms(4)] obtain refs where
    "list_all2 (\<lambda>m r. \<exists>d. fst (read_item e mc m ?uid s) = Inr d \<and> media_ref d = Inr r) pre refs"
    by (rule exE)
  from media_loop_first_raise[OF this assms(5) media_ref_no_blobName[OF assms(6)], of rest]
  have "fst (collect_media e (dict_get kvs ''media'' (JArr [])) ?uid s) = Raise KeyError"
    using collect_media_iter[OF assms(2), of e mc ?uid s] assms(3) by simp
  from createPost_raises[OF assms(1) this] show ?thesis .
qed

theorem createPost_media_without_blobName_witness:
  "fst (createPost post_env
         (post_req [(''userId'', JStr ''u1''), (''title'', JStr ''T''),
                    (''media'', JArr [JStr ''m1'', JStr ''m2''])]) mixed_store) = Inl KeyError
   \<and> containers (snd (createPost post_env
         (post_req [(''userId'', JStr ''u1''), (''title'', JStr ''T''),
                    (''media'', JArr [JStr ''m1'', JStr ''m2''])]) mixed_store))
       = containers mixed_store"
proof -
  let ?kvs = "[(''userId'', JStr ''u1''), (''title'', JStr ''T''),
               (''media'', JArr [JStr ''m1'', JStr ''m2''])]"
  have uid: "dict_get ?kvs ''userId'' JNull = JStr ''u1''"
    by (simp add: dict_get_def)
  have 1: "json_body (post_req ?kvs) = Some (JObj ?kvs)"
    by (simp add: post_req_def)
  have 2: "py_iter (dict_get ?kvs ''media'' (JArr [])) = Inr ([JStr ''m1''] @ JStr ''m2'' # [])"
    by (simp add: dict_get_def)
  have 4: "\<forall>x\<in>set [JStr ''m1'']. \<exists>d.
             fst (read_item post_env ''media'' x (dict_get ?kvs ''userId'' JNull) mixed_store) = Inr d
             \<and> map_of d ''blobName'' \<noteq> None"
    by (simp add: uid read_item_str post_env_def demo_env_def mixed_store_def media_doc1_def
        item_matches_def)
  have 5: "fst (read_item post_env ''media'' (JStr ''m2'') (dict_get ?kvs ''userId'' JNull) mixed_store)
             = Inr [(''id'', JStr ''m2''), (''userId'', JStr ''u1'')]"
    by (simp add: uid read_item_str post_env_def demo_env_def mixed_store_def media_doc1_def
        item_matches_def)
  have 6: "map_of [(''id'', JStr ''m2''), (''userId'', JStr ''u1'')] ''blobName'' = None"
    by simp
  from createPost_media_without_blobName[OF 1 2 post_env_config(1) 4 5 6] show ?thesis
    by simp
qed

section \<open>createPost: a body without userId and title\<close>

text \<open>
  The body \<open>{"media": ["ghost"]}\<close> is valid JSON and has neither \<open>userId\<close> nor
  \<open>title\<close>. Its one media id cannot be read, so the answer is 404 and the only store
  call is that read: no post is created and 201 is not returned.
\<close>

theorem createPost_absent_fields_counterexample:
  "map_of [(''media'', JArr [JStr ''ghost''])] ''userId'' = None
   \<and> map_of [(''media'', JArr [JStr ''ghost''])] ''title'' = None
   \<and> createPost post_env (post_req [(''media'', JArr [JStr ''ghost''])]) media_store
       = (Inr (HttpResponse (FText ''media not found or not owned by user: '' (JStr ''ghost'')) 404 None),
          logged (ReadItem ''media'' (JStr ''ghost'') JNull) media_store)"
  by (simp add: createPost_def post_req_def body_get_def dict_get_def collect_media_def
      post_env_config read_item_str)
    (simp add: post_env_def demo_env_def media_store_def media_doc1_def item_matches_def)

text \<open>
  Claim C7, amended. \<open>createPost\<close> does not validate the presence of \<open>userId\<close> or
  \<open>title\<close>. Whatever the body, once it is valid JSON no response of \<open>createPost\<close> is a
  400. When the body is a JSON object without \<open>userId\<close> and without \<open>title\<close>, and
  its \<open>media\<close> is either absent, null or otherwise falsy, or is a sequence of ids
  each of which is read, from the media container named by the environment and in the
  partition of the null user, as a document that has a \<open>blobName\<close>, and the
  environment names the post container and the post can be written (no dependency
  failure, the generated id is not taken in that partition), the response is 201 and
  the created post, with null for \<open>userId\<close> and for \<open>title\<close>, is appended to the post
  collection. A \<open>media\<close> that is truthy and not a sequence (a number, \<open>true\<close>) ends in
  an unhandled \<open>TypeError\<close>, a document without \<open>blobName\<close> in an unhandled
  \<open>KeyError\<close>, and an id that cannot be read in the 404 above.
\<close>

theorem createPost_absent_fields:
  "(json_body req = Some b \<and> fst (createPost e req s) = Inr r \<longrightarrow> status_code r \<noteq> 400)
   \<and> (json_body req = Some (JObj kvs)
        \<and> map_of kvs ''userId'' = None \<and> map_of kvs ''title'' = None
        \<and> (\<not> truthy (dict_get kvs ''media'' (JArr []))
            \<or> py_iter (dict_get kvs ''media'' (JArr [])) = Inr ms
              \<and> get_cosmos_container e ''COSMOS_MEDIA_CONTAINER'' = Inr mc
              \<and> (\<forall>m\<in>set ms. \<exists>d. fst (read_item e mc m JNull s) = Inr d
                     \<and> map_of d ''blobName'' \<noteq> None))
        \<and> get_cosmos_container e ''COSMOS_POST_CONTAINER'' = Inr pc
        \<and> (\<forall>d. \<not> faults e (CreateItem pc d))
        \<and> \<not> list_ex (item_matches (JStr (uuid4 e)) JNull) (containers s pc)
      \<longrightarrow> (\<exists>post. fst (createPost e req s) = Inr (json_response (JObj post) 201)
             \<and> map_of post ''userId'' = Some JNull
             \<and> map_of post ''title'' = Some JNull
             \<and> containers (snd (createPost e req s)) = (containers s)(pc := containers s pc @ [post])))"
proof (intro conjI impI)
  assume "json_body req = Some b \<and> fst (createPost e req s) = Inr r"
  then have "status_code r = 404 \<or> status_code r = 201"
    using createPost_status by blast
  then show "status_code r \<noteq> 400"
    by auto
next
  assume a: "json_body req = Some (JObj kvs)
        \<and> map_of kvs ''userId'' = None \<and> map_of kvs ''title'' = None
        \<and> (\<not> truthy (dict_get kvs ''media'' (JArr []))
            \<or> py_iter (dict_get kvs ''media'' (JArr [])) = Inr ms
              \<and> get_cosmos_container e ''COSMOS_MEDIA_CONTAINER'' = Inr mc
              \<and> (\<forall>m\<in>set ms. \<exists>d. fst (read_item e mc m JNull s) = Inr d
                     \<and> map_of d ''blobName'' \<noteq> None))
        \<and> get_cosmos_container e ''COSMOS_POST_CONTAINER'' = Inr pc
        \<and> (\<forall>d. \<not> faults e (CreateItem pc d))
        \<and> \<not> list_ex (item_matches (JStr (uuid4 e)) JNull) (containers s pc)"
  then have body: "json_body req = Some (JObj kvs)"
    and uid: "dict_get kvs ''userId'' JNull = JNull"
    and title: "dict_get kvs ''title'' JNull = JNull"
    and pc: "get_cosmos_container e ''COSMOS_POST_CONTAINER'' = Inr pc"
    and nofault: "\<forall>d. \<not> faults e (CreateItem pc d)"
    and fresh: "\<not> list_ex (item_matches (JStr (uuid4 e)) (dict_get kvs ''userId'' JNull)) (containers s pc)"
    by (simp_all add: dict_get_def)
  from a have media: "\<not> truthy (dict_get kvs ''media'' (JArr []))
            \<or> py_iter (dict_get kvs ''media'' (JArr [])) = Inr ms
              \<and> get_cosmos_container e ''COSMOS_MEDIA_CONTAINER'' = Inr mc
              \<and> (\<forall>m\<in>set ms. \<exists>d. fst (read_item e mc m JNull s) = Inr d
                     \<and> map_of d ''blobName'' \<noteq> None)"
    by simp
  have "\<exists>refs. fst (collect_media e (dict_get kvs ''media'' (JArr [])) (dict_get kvs ''userId'' JNull) s)
                 = Next refs"
    using media
  proof
    assume "\<not> truthy (dict_get kvs ''media'' (JArr []))"
    then show ?thesis
      by (simp add: collect_media_none)
  next
    assume b: "py_iter (dict_get kvs ''media'' (JArr [])) = Inr ms
              \<and> get_cosmos_container e ''COSMOS_MEDIA_CONTAINER'' = Inr mc
              \<and> (\<forall>m\<in>set ms. \<exists>d. fst (read_item e mc m JNull s) = Inr d
                     \<and> map_of d ''blobName'' \<noteq> None)"
    then have iter: "py_iter (dict_get kvs ''media'' (JArr [])) = Inr ms"
      and mc: "ms \<noteq> [] \<longrightarrow> get_cosmos_container e ''COSMOS_MEDIA_CONTAINER'' = Inr mc"
      and reads: "\<forall>m\<in>set ms. \<exists>d. fst (read_item e mc m JNull s) = Inr d \<and> map_of d ''blobName'' \<noteq> None"
      by simp_all
    from refs_of_reads[OF reads] obtain refs where
      "list_all2 (\<lambda>m r. \<exists>d. fst (read_item e mc m JNull s) = Inr d \<and> media_ref d = Inr r) ms refs"
      by (rule exE)
    then have "fst (media_loop e mc JNull ms [] s) = Next refs"
      by (rule media_loop_all_ok)
    then have "fst (collect_media e (dict_get kvs ''media'' (JArr [])) (dict_get kvs ''userId'' JNull) s)
                 = Next refs"
      using collect_media_iter[OF iter mc, of JNull s] by (simp add: uid)
    then show ?thesis
      by (rule exI)
  qed
  then obtain refs where
    "fst (collect_media e (dict_get kvs ''media'' (JArr [])) (dict_get kvs ''userId'' JNull) s) = Next refs"
    by (rule exE)
  from createPost_created[OF body this pc nofault fresh]
  show "\<exists>post. fst (createPost e req s) = Inr (json_response (JObj post) 201)
             \<and> map_of post ''userId'' = Some JNull
             \<and> map_of post ''title'' = Some JNull
             \<and> containers (snd (createPost e req s)) = (containers s)(pc := containers s pc @ [post])"
    unfolding uid title
    by (intro exI[of _ "[(''id'', JStr (uuid4 e)), (''userId'', JNull), (''title'', JNull),
          (''caption'', dict_get kvs ''caption'' (JStr [])), (''media'', JArr refs),
          (''createdAt'', JStr (utcnow_iso e))]"]) simp
qed

theorem createPost_absent_fields_witness:
  "\<exists>post. fst (createPost post_env (post_req [(''caption'', JStr ''hello''), (''media'', JNull)])
               media_store)
             = Inr (json_response (JObj post) 201)
     \<and> map_of post ''userId'' = Some JNull
     \<and> map_of post ''title'' = Some JNull
     \<and> status_code (json_response (JObj post) 201) \<noteq> 400
     \<and> containers (snd (createPost post_env
           (post_req [(''caption'', JStr ''hello''), (''media'', JNull)]) media_store))
          ''posts'' = [post]"
proof -
  let ?kvs = "[(''caption'', JStr ''hello''), (''media'', JNull)]"
  have "\<exists>post. fst (createPost post_env (post_req ?kvs) media_store)
                  = Inr (json_response (JObj post) 201)
             \<and> map_of post ''userId'' = Some JNull
             \<and> map_of post ''title'' = Some JNull
             \<and> containers (snd (createPost post_env (post_req ?kvs) media_store))
                 = (containers media_store)(''posts'' := containers media_store ''posts'' @ [post])"
    using createPost_absent_fields[of "post_req ?kvs" "JObj ?kvs" post_env media_store
        "text_response [] 400" ?kvs "[]" "''media''" "''posts''"]
    by (simp add: post_req_def dict_get_def post_env_config)
      (simp add: post_env_def demo_env_def media_store_def)
  then obtain post where
    p: "fst (createPost post_env (post_req ?kvs) media_store) = Inr (json_response (JObj post) 201)"
    and u: "map_of post ''userId'' = Some JNull"
    and ti: "map_of post ''title'' = Some JNull"
    and c: "containers (snd (createPost post_env (post_req ?kvs) media_store))
              = (containers media_store)(''posts'' := containers media_store ''posts'' @ [post])"
    by (elim exE conjE)
  have "status_code (json_response (JObj post) 201) \<noteq> 400"
    using createPost_absent_fields[of "post_req ?kvs" "JObj ?kvs" post_env media_store
        "json_response (JObj post) 201"] p
    by (simp add: post_req_def)
  with p u ti c show ?thesis
    by (intro exI[of _ post]) (simp add: media_store_def)
qed

section \<open>uploadMedia: the stored item\<close>

lemma uploadMedia_stored:
  assumes "form req ''userId'' = Some uid" "uid \<noteq> []"
      and "files req ''file'' = Some f" "filename f \<noteq> []"
      and "get_blob_container e = Inr bc"
      and "get_cosmos_container e ''COSMOS_MEDIA_CONTAINER'' = Inr mc"
      and "\<forall>c. \<not> faults e c"
      and "name = uid @ ''/'' @ uuid4 e @ ''-'' @ filename f"
      and "doc = [(''id'', JStr (uuid4 e)),
                  (''userId'', JStr uid),
                  (''fileName'', JStr (filename f)),
                  (''contentType'', json_of_opt (content_type f)),
                  (''sizeBytes'', JNum (int (length (stream f)))),
                  (''blobName'', JStr name),
                  (''uploadedAt'', JStr (utcnow_iso e))]"
  shows "uploadMedia e req s =
           (Inr (json_response (JObj doc) 201),
            s\<lparr>calls := calls s @ [UploadBlob bc name (stream f) (content_type f), UpsertItem mc doc],
               blobs := (blobs s)((bc, name) \<mapsto> (stream f, content_type f)),
               containers := (containers s)
                 (mc := filter (\<lambda>d'. \<not> same_item doc d') (containers s mc) @ [doc])\<rparr>)"
  using assms(1-6,8,9)
  by (simp add: uploadMedia_def py_not_def py_not_file_def Let_def
      upload_blob_ok[OF assms(7)[rule_format]] upsert_item_ok[OF assms(7)[rule_format]] logged_def)

text \<open>
  Claim C4. Take an \<open>uploadMedia\<close> request that passes the validation (a non-empty
  \<open>userId\<close> and a file part that Python counts as true), in an environment that names
  the blob container and the media container, with no dependency failure. The response
  is 201 with the MediaItem; its \<open>id\<close> is the fresh id, its \<open>blobName\<close> is
  \<open>userId/id-fileName\<close>, and its \<open>sizeBytes\<close> is the number of bytes of the payload. The
  Blob Store holds the payload and its content type under that blob name, and the calls
  of the request are, in this order, the upload of the blob and the upsert of the
  document, which a point read of the new id in the user's partition then returns.
\<close>

theorem uploadMedia_valid:
  assumes "form req ''userId'' = Some uid" "uid \<noteq> []"
      and "files req ''file'' = Some f" "filename f \<noteq> []"
      and "get_blob_container e = Inr bc"
      and "get_cosmos_container e ''COSMOS_MEDIA_CONTAINER'' = Inr mc"
      and "\<forall>c. \<not> faults e c"
  shows "\<exists>doc.
           fst (uploadMedia e req s) = Inr (json_response (JObj doc) 201)
           \<and> map_of doc ''id'' = Some (JStr (uuid4 e))
           \<and> map_of doc ''userId'' = Some (JStr uid)
           \<and> map_of doc ''blobName'' = Some (JStr (uid @ ''/'' @ uuid4 e @ ''-'' @ filename f))
           \<and> map_of doc ''sizeBytes'' = Some (JNum (int (length (stream f))))
           \<and> blobs (snd (uploadMedia e req s)) (bc, uid @ ''/'' @ uuid4 e @ ''-'' @ filename f)
               = Some (stream f, content_type f)
           \<and> calls (snd (uploadMedia e req s))
               = calls s @ [UploadBlob bc (uid @ ''/'' @ uuid4 e @ ''-'' @ filename f)
                              (stream f) (content_type f),
                            UpsertItem mc doc]
           \<and> find (item_matches (JStr (uuid4 e)) (JStr uid)) (containers (snd (uploadMedia e req s)) mc)
               = Some doc"
proof -
  let ?name = "uid @ ''/'' @ uuid4 e @ ''-'' @ filename f"
  let ?doc = "[(''id'', JStr (uuid4 e)),
               (''userId'', JStr uid),
               (''fileName'', JStr (filename f)),
               (''contentType'', json_of_opt (content_type f)),
               (''sizeBytes'', JNum (int (length (stream f)))),
               (''blobName'', JStr ?name),
               (''uploadedAt'', JStr (utcnow_iso e))]"
  note st = uploadMedia_stored[OF assms refl refl, of s]
  have si: "same_item ?doc = item_matches (JStr (uuid4 e)) (JStr uid)"
    by (rule same_item_post) simp_all
  have m: "item_matches (JStr (uuid4 e)) (JStr uid) ?doc"
    by (simp add: item_matches_def)
  have "find (item_matches (JStr (uuid4 e)) (JStr uid))
          (filter (\<lambda>d'. \<not> same_item ?doc d') (containers s mc) @ [?doc])
        = Some ?doc"
    unfolding si using m by (simp add: find_app find_filter_not)
  then show ?thesis
    by (intro exI[of _ ?doc]) (simp add: st)
qed


theorem uploadMedia_valid_witness:
  "\<exists>doc.
     fst (uploadMedia demo_env upload_req empty_store) = Inr (json_response (JObj doc) 201)
     \<and> map_of doc ''id'' = Some (JStr ''m1'')
     \<and> map_of doc ''userId'' = Some (JStr ''u1'')
     \<and> map_of doc ''blobName'' = Some (JStr ''u1/m1-a.png'')
     \<and> map_of doc ''sizeBytes'' = Some (JNum 1)
     \<and> blobs (snd (uploadMedia demo_env upload_req empty_store)) (''files'', ''u1/m1-a.png'')
         = Some ([0x58], Some ''image/png'')
     \<and> calls (snd (uploadMedia demo_env upload_req empty_store))
         = [UploadBlob ''files'' ''u1/m1-a.png'' [0x58] (Some ''image/png''), UpsertItem ''media'' doc]
     \<and> find (item_matches (JStr ''m1'') (JStr ''u1''))
           (containers (snd (uploadMedia demo_env upload_req empty_store)) ''media'') = Some doc"
proof -
  have f: "files upload_req ''file''
             = Some \<lparr>filename = ''a.png'', content_type = Some ''image/png'', stream = [0x58]\<rparr>"
    by (simp add: upload_req_def)
  have u: "form upload_req ''userId'' = Some ''u1''"
    by (simp add: upload_req_def)
  have nf: "\<forall>c. \<not> faults demo_env c"
    by (simp add: demo_env_def)
  have id: "uuid4 demo_env = ''m1''"
    by (simp add: demo_env_def)
  have c: "calls empty_store = []"
    by (simp add: empty_store_def)
  from uploadMedia_valid[OF u _ f _ demo_config(3) demo_config(1) nf, of empty_store]
  show ?thesis
    by (simp add: id c)
qed

section \<open>getPosts and getAllPosts: the listing\<close>

text \<open>
  Claim C5. \<open>getPosts\<close> for a non-empty \<open>userId\<close>, in an environment that names the
  post container and with no dependency failure of the query, answers 200 with a JSON
  array of documents of the post collection: every one has the given \<open>userId\<close>, they
  are in descending order of \<open>createdAt\<close>, and they are all the posts of that user (all
  that have a \<open>createdAt\<close> to be ordered by), each as often as the collection holds it.
  \<open>getAllPosts\<close> answers 200 with the posts of all users, in the same order rule, and
  again with the whole result of the query. The one store call of either is the query.
\<close>

theorem posts_sorted_by_createdAt:
  "(params req ''userId'' = Some uid \<and> uid \<noteq> []
      \<and> get_cosmos_container e ''COSMOS_POST_CONTAINER'' = Inr pc
      \<and> \<not> faults e (QueryItems pc (Some uid) ''createdAt'')
    \<longrightarrow> (\<exists>items.
           getPosts e req s = (Inr (json_response (JArr (map JObj items)) 200),
                               logged (QueryItems pc (Some uid) ''createdAt'') s)
           \<and> (\<forall>d\<in>set items. map_of d ''userId'' = Some (JStr uid))
           \<and> sorted_wrt (\<lambda>a b. field_key ''createdAt'' b \<le> field_key ''createdAt'' a) items
           \<and> mset items
               = mset (filter (\<lambda>d. map_of d ''userId'' = Some (JStr uid) \<and> map_of d ''createdAt'' \<noteq> None)
                         (containers s pc))))
   \<and> (get_cosmos_container e ''COSMOS_POST_CONTAINER'' = Inr pc
      \<and> \<not> faults e (QueryItems pc None ''createdAt'')
    \<longrightarrow> (\<exists>items.
           getAllPosts e req s = (Inr (json_response (JArr (map JObj items)) 200),
                                  logged (QueryItems pc None ''createdAt'') s)
           \<and> sorted_wrt (\<lambda>a b. field_key ''createdAt'' b \<le> field_key ''createdAt'' a) items
           \<and> mset items = mset (filter (\<lambda>d. map_of d ''createdAt'' \<noteq> None) (containers s pc))))"
proof (intro conjI impI)
  assume a: "params req ''userId'' = Some uid \<and> uid \<noteq> []
      \<and> get_cosmos_container e ''COSMOS_POST_CONTAINER'' = Inr pc
      \<and> \<not> faults e (QueryItems pc (Some uid) ''createdAt'')"
  let ?items = "order_by_desc ''createdAt'' (filter (where_user (Some uid)) (containers s pc))"
  have nf: "\<not> faults e (QueryItems pc (Some uid) ''createdAt'')"
    using a by simp
  have 1: "getPosts e req s = (Inr (json_response (JArr (map JObj ?items)) 200),
                               logged (QueryItems pc (Some uid) ''createdAt'') s)"
    using a by (simp add: getPosts_def py_not_def Let_def query_items_ok[OF nf])
  have m: "mset ?items
             = mset (filter (\<lambda>d. map_of d ''userId'' = Some (JStr uid) \<and> map_of d ''createdAt'' \<noteq> None)
                       (containers s pc))"
    by (simp add: order_by_desc_mset where_user_def conj_commute)
  have 2: "\<forall>d\<in>set ?items. map_of d ''userId'' = Some (JStr uid)"
    using mset_eq_setD[OF m] by simp
  from 1 2 m order_by_desc_sorted[of "''createdAt''"] show
    "\<exists>items.
           getPosts e req s = (Inr (json_response (JArr (map JObj items)) 200),
                               logged (QueryItems pc (Some uid) ''createdAt'') s)
           \<and> (\<forall>d\<in>set items. map_of d ''userId'' = Some (JStr uid))
           \<and> sorted_wrt (\<lambda>a b. field_key ''createdAt'' b \<le> field_key ''createdAt'' a) items
           \<and> mset items
               = mset (filter (\<lambda>d. map_of d ''userId'' = Some (JStr uid) \<and> map_of d ''createdAt'' \<noteq> None)
                         (containers s pc))"
    by (intro exI[of _ ?items] conjI)
next
  assume a: "get_cosmos_container e ''COSMOS_POST_CONTAINER'' = Inr pc
      \<and> \<not> faults e (QueryItems pc None ''createdAt'')"
  let ?items = "order_by_desc ''createdAt'' (filter (where_user None) (containers s pc))"
  have nf: "\<not> faults e (QueryItems pc None ''createdAt'')"
    using a by simp
  have 1: "getAllPosts e req s = (Inr (json_response (JArr (map JObj ?items)) 200),
                                  logged (QueryItems pc None ''createdAt'') s)"
    using a by (simp add: getAllPosts_def query_items_ok[OF nf])
  have m: "mset ?items = mset (filter (\<lambda>d. map_of d ''createdAt'' \<noteq> None) (containers s pc))"
    by (simp add: order_by_desc_mset where_user_def)
  from 1 m order_by_desc_sorted[of "''createdAt''"] show
    "\<exists>items.
           getAllPosts e req s = (Inr (json_response (JArr (map JObj items)) 200),
                                  logged (QueryItems pc None ''createdAt'') s)
           \<and> sorted_wrt (\<lambda>a b. field_key ''createdAt'' b \<le> field_key ''createdAt'' a) items
           \<and> mset items = mset (filter (\<lambda>d. map_of d ''createdAt'' \<noteq> None) (containers s pc))"
    by (intro exI[of _ ?items] conjI)
qed

theorem posts_sorted_by_createdAt_witness:
  "getPosts demo_env (get_req ''u1'') posts_store
     = (Inr (json_response (JArr (map JObj
          [post_doc ''p3'' ''u1'' ''2024-01-03T10:00:00+00:00'',
           post_doc ''p1'' ''u1'' ''2024-01-01T10:00:00+00:00''])) 200),
        logged (QueryItems ''posts'' (Some ''u1'') ''createdAt'') posts_store)
   \<and> sorted_wrt (\<lambda>a b. field_key ''createdAt'' b \<le> field_key ''createdAt'' a)
         [post_doc ''p3'' ''u1'' ''2024-01-03T10:00:00+00:00'',
          post_doc ''p1'' ''u1'' ''2024-01-01T10:00:00+00:00'']
   \<and> getAllPosts demo_env (get_req ''u1'') posts_store
     = (Inr (json_response (JArr (map JObj
          [post_doc ''p3'' ''u1'' ''2024-01-03T10:00:00+00:00'',
           post_doc ''p2'' ''u2'' ''2024-01-02T10:00:00+00:00'',
           post_doc ''p1'' ''u1'' ''2024-01-01T10:00:00+00:00''])) 200),
        logged (QueryItems ''posts'' None ''createdAt'') posts_store)
   \<and> sorted_wrt (\<lambda>a b. field_key ''createdAt'' b \<le> field_key ''createdAt'' a)
         [post_doc ''p3'' ''u1'' ''2024-01-03T10:00:00+00:00'',
          post_doc ''p2'' ''u2'' ''2024-01-02T10:00:00+00:00'',
          post_doc ''p1'' ''u1'' ''2024-01-01T10:00:00+00:00'']"
proof -
  let ?u1 = "[post_doc ''p3'' ''u1'' ''2024-01-03T10:00:00+00:00'',
              post_doc ''p1'' ''u1'' ''2024-01-01T10:00:00+00:00'']"
  let ?all = "[post_doc ''p3'' ''u1'' ''2024-01-03T10:00:00+00:00'',
               post_doc ''p2'' ''u2'' ''2024-01-02T10:00:00+00:00'',
               post_doc ''p1'' ''u1'' ''2024-01-01T10:00:00+00:00'']"
  have p: "params (get_req ''u1'') ''userId'' = Some ''u1''"
    by (simp add: get_req_def)
  have nf: "\<not> faults demo_env c" for c
    by (simp add: demo_env_def)
  note t = posts_sorted_by_createdAt[of "get_req ''u1''" "''u1''" demo_env "''posts''" posts_store]
  from t obtain items where
    g: "getPosts demo_env (get_req ''u1'') posts_store
          = (Inr (json_response (JArr (map JObj items)) 200),
             logged (QueryItems ''posts'' (Some ''u1'') ''createdAt'') posts_store)"
    and gs: "sorted_wrt (\<lambda>a b. field_key ''createdAt'' b \<le> field_key ''createdAt'' a) items"
    using p nf demo_config(2) by auto
  from t obtain items' where
    a: "getAllPosts demo_env (get_req ''u1'') posts_store
          = (Inr (json_response (JArr (map JObj items')) 200),
             logged (QueryItems ''posts'' None ''createdAt'') posts_store)"
    and as: "sorted_wrt (\<lambda>a b. field_key ''createdAt'' b \<le> field_key ''createdAt'' a) items'"
    using nf demo_config(2) by auto
  have "getPosts demo_env (get_req ''u1'') posts_store
          = (Inr (json_response (JArr (map JObj ?u1)) 200),
             logged (QueryItems ''posts'' (Some ''u1'') ''createdAt'') posts_store)"
    using p by (simp add: getPosts_def py_not_def Let_def demo_config query_items_ok[OF nf] posts_of_u1)
  with g have i1: "items = ?u1"
    by (auto simp add: json_response_def Cons_eq_map_conv)
  have "getAllPosts demo_env (get_req ''u1'') posts_store
          = (Inr (json_response (JArr (map JObj ?all)) 200),
             logged (QueryItems ''posts'' None ''createdAt'') posts_store)"
    by (simp add: getAllPosts_def demo_config query_items_ok[OF nf] posts_of_all)
  with a have i2: "items' = ?all"
    by (auto simp add: json_response_def Cons_eq_map_conv)
  from g gs a as show ?thesis
    unfolding i1 i2 by (intro conjI)
qed

section \<open>deletePost: what its 404 means\<close>

lemma deletePost_valid:
  assumes "params req ''userId'' = Some uid" "uid \<noteq> []"
      and "params req ''postId'' = Some pid" "pid \<noteq> []"
      and "get_cosmos_container e ''COSMOS_POST_CONTAINER'' = Inr pc"
  shows "deletePost e req s =
     (case delete_item e pc (JStr pid) (JStr uid) s of
        (Inl _, s1) \<Rightarrow> (Inr (text_response ''Post not found'' 404), s1)
      | (Inr _, s1) \<Rightarrow> (Inr (HttpResponse NoBody 204 None), s1))"
  using assms by (simp add: deletePost_def py_not_def)

text \<open>
  The post \<open>p1\<close> of \<open>u1\<close> is in the collection and the Document Store fails during
  the point-delete. The handler's \<open>except Exception\<close> catches the failure: the answer is
  404 "Post not found", not a fault that the runtime turns into a 500, although the post
  was found.
\<close>

theorem deletePost_counterexample:
  "list_ex (item_matches (JStr ''p1'') (JStr ''u1'')) (containers posts_store ''posts'')
   \<and> faults (failing (DeleteItem ''posts'' (JStr ''p1'') (JStr ''u1'')))
        (DeleteItem ''posts'' (JStr ''p1'') (JStr ''u1''))
   \<and> deletePost (failing (DeleteItem ''posts'' (JStr ''p1'') (JStr ''u1''))) delete_post_req posts_store
       = (Inr (text_response ''Post not found'' 404),
          logged (DeleteItem ''posts'' (JStr ''p1'') (JStr ''u1'')) posts_store)"
proof -
  have p: "params delete_post_req ''userId'' = Some ''u1''" "''u1'' \<noteq> []"
    "params delete_post_req ''postId'' = Some ''p1''" "''p1'' \<noteq> []"
    by (simp_all add: delete_post_req_def)
  have f: "faults (failing (DeleteItem ''posts'' (JStr ''p1'') (JStr ''u1'')))
        (DeleteItem ''posts'' (JStr ''p1'') (JStr ''u1''))"
    by (simp add: failing_def)
  have ex: "list_ex (item_matches (JStr ''p1'') (JStr ''u1'')) (containers posts_store ''posts'')"
    by (simp add: posts_store_def post_doc_def item_matches_def)
  show ?thesis
    using ex f by (simp add: deletePost_valid[OF p failing_config(2)] delete_item_fault[OF f])
qed

text \<open>
  Claim C6, amended. A \<open>deletePost\<close> request with both parameters, in an environment
  that names the post container, is answered 404 exactly when the point-delete raises:
  when the post is not in the partition (not found, or in the partition of another
  user), and also when the Document Store fails during the point-delete; that failure is
  caught by the handler and reported as 404, it is not propagated as a generic 500.
  Otherwise the answer is 204 and the post is gone.
\<close>

theorem deletePost_not_found_or_failed:
  assumes "params req ''userId'' = Some uid" "uid \<noteq> []"
      and "params req ''postId'' = Some pid" "pid \<noteq> []"
      and "get_cosmos_container e ''COSMOS_POST_CONTAINER'' = Inr pc"
  shows "(faults e (DeleteItem pc (JStr pid) (JStr uid))
            \<or> \<not> list_ex (item_matches (JStr pid) (JStr uid)) (containers s pc)
          \<longrightarrow> deletePost e req s
                = (Inr (text_response ''Post not found'' 404),
                   logged (DeleteItem pc (JStr pid) (JStr uid)) s))
       \<and> (\<not> faults e (DeleteItem pc (JStr pid) (JStr uid))
            \<and> list_ex (item_matches (JStr pid) (JStr uid)) (containers s pc)
          \<longrightarrow> fst (deletePost e req s) = Inr (HttpResponse NoBody 204 None)
              \<and> \<not> list_ex (item_matches (JStr pid) (JStr uid)) (containers (snd (deletePost e req s)) pc))"
proof (intro conjI impI)
  assume "faults e (DeleteItem pc (JStr pid) (JStr uid))
            \<or> \<not> list_ex (item_matches (JStr pid) (JStr uid)) (containers s pc)"
  then show "deletePost e req s
                = (Inr (text_response ''Post not found'' 404),
                   logged (DeleteItem pc (JStr pid) (JStr uid)) s)"
  proof
    assume "faults e (DeleteItem pc (JStr pid) (JStr uid))"
    then show ?thesis
      by (simp add: deletePost_valid[OF assms] delete_item_fault)
  next
    assume "\<not> list_ex (item_matches (JStr pid) (JStr uid)) (containers s pc)"
    from delete_item_absent[OF this, of e] show ?thesis
      by (auto simp add: deletePost_valid[OF assms])
  qed
next
  assume a: "\<not> faults e (DeleteItem pc (JStr pid) (JStr uid))
            \<and> list_ex (item_matches (JStr pid) (JStr uid)) (containers s pc)"
  then have ok: "delete_item e pc (JStr pid) (JStr uid) s =
     (Inr (), (logged (DeleteItem pc (JStr pid) (JStr uid)) s)
        \<lparr>containers := (containers s)
           (pc := filter (\<lambda>d. \<not> item_matches (JStr pid) (JStr uid) d) (containers s pc))\<rparr>)"
    by (simp add: delete_item_ok)
  show "fst (deletePost e req s) = Inr (HttpResponse NoBody 204 None)"
    by (simp add: deletePost_valid[OF assms] ok)
  show "\<not> list_ex (item_matches (JStr pid) (JStr uid)) (containers (snd (deletePost e req s)) pc)"
    by (simp add: deletePost_valid[OF assms] ok list_ex_iff)
qed

theorem deletePost_not_found_or_failed_witness:
  "deletePost demo_env delete_post_req empty_store
     = (Inr (text_response ''Post not found'' 404),
        logged (DeleteItem ''posts'' (JStr ''p1'') (JStr ''u1'')) empty_store)
   \<and> deletePost (failing (DeleteItem ''posts'' (JStr ''p1'') (JStr ''u1''))) delete_post_req posts_store
     = (Inr (text_response ''Post not found'' 404),
        logged (DeleteItem ''posts'' (JStr ''p1'') (JStr ''u1'')) posts_store)
   \<and> fst (deletePost demo_env delete_post_req posts_store) = Inr (HttpResponse NoBody 204 None)"
proof -
  have p: "params delete_post_req ''userId'' = Some ''u1''" "''u1'' \<noteq> []"
    "params delete_post_req ''postId'' = Some ''p1''" "''p1'' \<noteq> []"
    by (simp_all add: delete_post_req_def)
  have ex: "list_ex (item_matches (JStr ''p1'') (JStr ''u1'')) (containers posts_store ''posts'')"
    by (simp add: posts_store_def post_doc_def item_matches_def)
  have A: "deletePost demo_env delete_post_req empty_store
     = (Inr (text_response ''Post not found'' 404),
        logged (DeleteItem ''posts'' (JStr ''p1'') (JStr ''u1'')) empty_store)"
    using deletePost_not_found_or_failed[OF p demo_config(2), of empty_store]
    by (simp add: empty_store_def)
  have B: "deletePost (failing (DeleteItem ''posts'' (JStr ''p1'') (JStr ''u1''))) delete_post_req posts_store
     = (Inr (text_response ''Post not found'' 404),
        logged (DeleteItem ''posts'' (JStr ''p1'') (JStr ''u1'')) posts_store)"
    using deletePost_not_found_or_failed[OF p failing_config(2), of _ posts_store]
    by (simp add: failing_def)
  have C: "fst (deletePost demo_env delete_post_req posts_store) = Inr (HttpResponse NoBody 204 None)"
    using deletePost_not_found_or_failed[OF p demo_config(2), of posts_store] ex
    by (simp add: demo_env_def)
  from A B C show ?thesis
    by simp
qed

section \<open>Deleting twice\<close>

lemma get_cosmos_container_environ:
  assumes "environ e2 = environ e1"
  shows "get_cosmos_container e2 c = get_cosmos_container e1 c"
proof -
  have "os_environ e2 = os_environ e1"
    using assms by (simp add: fun_eq_iff os_environ_def)
  then show ?thesis
    by (simp add: get_cosmos_container_def split: sum.splits)
qed

lemma deletePost_204D:
  assumes "deletePost e req s = (Inr (HttpResponse NoBody 204 None), s1)"
  shows "\<exists>uid pid pc. params req ''userId'' = Some uid \<and> uid \<noteq> []
           \<and> params req ''postId'' = Some pid \<and> pid \<noteq> []
           \<and> get_cosmos_container e ''COSMOS_POST_CONTAINER'' = Inr pc
           \<and> \<not> list_ex (item_matches (JStr pid) (JStr uid)) (containers s1 pc)"
proof -
  have v: "\<not> (py_not (params req ''userId'') \<or> py_not (params req ''postId''))"
  proof
    assume "py_not (params req ''userId'') \<or> py_not (params req ''postId'')"
    then have "deletePost e req s = (Inr (text_response ''Missing userId or postId'' 400), s)"
      by (simp add: deletePost_def)
    with assms show False
      by (simp add: text_response_def)
  qed
  then obtain uid pid where
    p: "params req ''userId'' = Some uid" "uid \<noteq> []" "params req ''postId'' = Some pid" "pid \<noteq> []"
    by (auto simp add: py_not_def split: option.splits)
  obtain pc where pc: "get_cosmos_container e ''COSMOS_POST_CONTAINER'' = Inr pc"
    using assms p
    by (cases "get_cosmos_container e ''COSMOS_POST_CONTAINER''")
      (simp_all add: deletePost_def py_not_def)
  note dv = deletePost_valid[OF p pc, of s]
  have nf: "\<not> faults e (DeleteItem pc (JStr pid) (JStr uid))"
  proof
    assume "faults e (DeleteItem pc (JStr pid) (JStr uid))"
    from delete_item_fault[OF this, of s] assms dv show False
      by (simp add: text_response_def)
  qed
  have ex: "list_ex (item_matches (JStr pid) (JStr uid)) (containers s pc)"
  proof (rule ccontr)
    assume "\<not> list_ex (item_matches (JStr pid) (JStr uid)) (containers s pc)"
    from delete_item_absent[OF this, of e] assms dv show False
      by (auto simp add: text_response_def)
  qed
  have "\<not> list_ex (item_matches (JStr pid) (JStr uid)) (containers s1 pc)"
    using assms dv by (auto simp add: delete_item_ok[OF nf ex] list_ex_iff)
  with p pc show ?thesis
    by blast
qed

lemma deleteMedia_204D:
  assumes "deleteMedia e req s = (Inr (HttpResponse NoBody 204 None), s1)"
  shows "\<exists>uid mid mc. params req ''userId'' = Some uid \<and> uid \<noteq> []
           \<and> params req ''mediaId'' = Some mid \<and> mid \<noteq> []
           \<and> get_cosmos_container e ''COSMOS_MEDIA_CONTAINER'' = Inr mc
           \<and> find (item_matches (JStr mid) (JStr uid)) (containers s1 mc) = None"
proof -
  have r: "fst (deleteMedia e req s) = Inr (HttpResponse NoBody 204 None)"
    and s1: "snd (deleteMedia e req s) = s1"
    using assms by simp_all
  have v: "\<not> (py_not (params req ''userId'') \<or> py_not (params req ''mediaId''))"
  proof
    assume "py_not (params req ''userId'') \<or> py_not (params req ''mediaId'')"
    then have "deleteMedia e req s = (Inr (text_response ''missing userId or mediaId'' 400), s)"
      by (simp add: deleteMedia_def)
    with assms show False
      by (simp add: text_response_def)
  qed
  then obtain uid mid where
    p: "params req ''userId'' = Some uid" "uid \<noteq> []" "params req ''mediaId'' = Some mid" "mid \<noteq> []"
    by (auto simp add: py_not_def split: option.splits)
  obtain mc where mc: "get_cosmos_container e ''COSMOS_MEDIA_CONTAINER'' = Inr mc"
    using assms p
    by (cases "get_cosmos_container e ''COSMOS_MEDIA_CONTAINER''")
      (simp_all add: deleteMedia_def py_not_def)
  let ?rd = "ReadItem mc (JStr mid) (JStr uid)"
  let ?find = "find (item_matches (JStr mid) (JStr uid)) (containers s mc)"
  have rdok: "\<not> (faults e ?rd \<or> ?find = None)"
  proof
    assume "faults e ?rd \<or> ?find = None"
    from deleteMedia_read_fails[OF p mc this] r show False
      by (simp add: text_response_def)
  qed
  then have nf: "\<not> faults e ?rd"
    by simp
  from rdok obtain d where d: "?find = Some d"
    by (cases ?find) simp_all
  have tr: "truthy (dict_get d ''blobName'' JNull)"
  proof (rule ccontr)
    assume "\<not> truthy (dict_get d ''blobName'' JNull)"
    then have "map_of d ''blobName'' = None \<or> \<not> truthy (dict_get d ''blobName'' JNull)"
      by simp
    from deleteMedia_no_blobName[OF p mc nf d this] r show False
      by (simp add: text_response_def)
  qed
  have bl: "fst (delete_media_blob e (dict_get d ''blobName'' JNull) s) = Inr ()"
  proof (cases "fst (delete_media_blob e (dict_get d ''blobName'' JNull) s)")
    case (Inl x)
    from deleteMedia_blob_fails[OF p mc nf d tr this] r show ?thesis
      by (simp add: text_response_def)
  next
    case (Inr u)
    then show ?thesis by simp
  qed
  have nd: "\<not> faults e (DeleteItem mc (JStr mid) (JStr uid))"
  proof
    assume "faults e (DeleteItem mc (JStr mid) (JStr uid))"
    from deleteMedia_doc_fails[OF p mc nf d tr bl this] r show False
      by (simp add: text_response_def)
  qed
  from deleteMedia_done[OF p mc nf d tr bl nd] s1
  have "find (item_matches (JStr mid) (JStr uid)) (containers s1 mc) = None"
    by simp
  with p mc show ?thesis
    by blast
qed

lemma demo_deletePost_done:
  "fst (deletePost demo_env delete_post_req posts_store) = Inr (HttpResponse NoBody 204 None)"
proof -
  have p: "params delete_post_req ''userId'' = Some ''u1''" "''u1'' \<noteq> []"
    "params delete_post_req ''postId'' = Some ''p1''" "''p1'' \<noteq> []"
    by (simp_all add: delete_post_req_def)
  have ex: "list_ex (item_matches (JStr ''p1'') (JStr ''u1'')) (containers posts_store ''posts'')"
    by (simp add: posts_store_def post_doc_def item_matches_def)
  have nf: "\<not> faults demo_env (DeleteItem ''posts'' (JStr ''p1'') (JStr ''u1''))"
    by (simp add: demo_env_def)
  show ?thesis
    by (simp add: deletePost_valid[OF p demo_config(2)] delete_item_ok[OF nf ex])
qed

lemma demo_deleteMedia_done:
  "fst (deleteMedia demo_env delete_media_req media_store) = Inr (HttpResponse NoBody 204 None)"
proof -
  have p: "params delete_media_req ''userId'' = Some ''u1''" "''u1'' \<noteq> []"
    "params delete_media_req ''mediaId'' = Some ''m1''" "''m1'' \<noteq> []"
    by (simp_all add: delete_media_req_def)
  have nf: "\<not> faults demo_env c" for c
    by (simp add: demo_env_def)
  have f: "find (item_matches (JStr ''m1'') (JStr ''u1'')) (containers media_store ''media'')
             = Some media_doc1"
    by (simp add: media_store_def media_doc1_def item_matches_def)
  have bn: "dict_get media_doc1 ''blobName'' JNull = JStr ''u1/m1-a.png''"
    by (simp add: media_doc1_def dict_get_def)
  have tr: "truthy (dict_get media_doc1 ''blobName'' JNull)"
    by (simp add: bn)
  have bl: "fst (delete_media_blob demo_env (dict_get media_doc1 ''blobName'' JNull) media_store) = Inr ()"
    by (simp add: bn delete_media_blob_def delete_blob_def demo_config nf) (simp add: media_store_def)
  from deleteMedia_done[OF p demo_config(1) nf f tr bl nf] show ?thesis
    by simp
qed

text \<open>
  Claim C8. Let a first \<open>deletePost\<close> (or \<open>deleteMedia\<close>) call have succeeded, that
  is, have answered 204, so that the post (the media item) is deleted. A second call
  with the same request on the state the first call left, under the same settings of
  the environment and whatever the store calls that fail this time, is answered 404
  and not 204.
\<close>

theorem second_delete_not_found:
  "(environ e2 = environ e1 \<and> deletePost e1 req s = (Inr (HttpResponse NoBody 204 None), s1)
      \<longrightarrow> fst (deletePost e2 req s1) = Inr (text_response ''Post not found'' 404))
   \<and> (environ e2 = environ e1 \<and> deleteMedia e1 req s = (Inr (HttpResponse NoBody 204 None), s1)
      \<longrightarrow> fst (deleteMedia e2 req s1) = Inr (text_response ''media not found'' 404))"
proof (intro conjI impI)
  assume a: "environ e2 = environ e1 \<and> deletePost e1 req s = (Inr (HttpResponse NoBody 204 None), s1)"
  then have first: "deletePost e1 req s = (Inr (HttpResponse NoBody 204 None), s1)"
    by simp
  from deletePost_204D[OF first] obtain uid pid pc where
    p: "params req ''userId'' = Some uid" "uid \<noteq> []" "params req ''postId'' = Some pid" "pid \<noteq> []"
    and pc: "get_cosmos_container e1 ''COSMOS_POST_CONTAINER'' = Inr pc"
    and gone: "\<not> list_ex (item_matches (JStr pid) (JStr uid)) (containers s1 pc)"
    by (elim exE conjE)
  have "environ e2 = environ e1"
    using a by simp
  then have pc2: "get_cosmos_container e2 ''COSMOS_POST_CONTAINER'' = Inr pc"
    using pc get_cosmos_container_environ[of e2 e1 "''COSMOS_POST_CONTAINER''"] by simp
  from delete_item_absent[OF gone, of e2] obtain x where
    "delete_item e2 pc (JStr pid) (JStr uid) s1 = (Inl x, logged (DeleteItem pc (JStr pid) (JStr uid)) s1)"
    by (rule exE)
  then show "fst (deletePost e2 req s1) = Inr (text_response ''Post not found'' 404)"
    by (simp add: deletePost_valid[OF p pc2])
next
  assume a: "environ e2 = environ e1 \<and> deleteMedia e1 req s = (Inr (HttpResponse NoBody 204 None), s1)"
  then have first: "deleteMedia e1 req s = (Inr (HttpResponse NoBody 204 None), s1)"
    by simp
  from deleteMedia_204D[OF first] obtain uid mid mc where
    p: "params req ''userId'' = Some uid" "uid \<noteq> []" "params req ''mediaId'' = Some mid" "mid \<noteq> []"
    and mc: "get_cosmos_container e1 ''COSMOS_MEDIA_CONTAINER'' = Inr mc"
    and gone: "find (item_matches (JStr mid) (JStr uid)) (containers s1 mc) = None"
    by (elim exE conjE)
  have "environ e2 = environ e1"
    using a by simp
  then have mc2: "get_cosmos_container e2 ''COSMOS_MEDIA_CONTAINER'' = Inr mc"
    using mc get_cosmos_container_environ[of e2 e1 "''COSMOS_MEDIA_CONTAINER''"] by simp
  from deleteMedia_read_fails[OF p mc2, of s1] gone
  show "fst (deleteMedia e2 req s1) = Inr (text_response ''media not found'' 404)"
    by simp
qed


theorem second_delete_not_found_witness:
  "fst (deletePost demo_env delete_post_req posts_store) = Inr (HttpResponse NoBody 204 None)
   \<and> fst (deletePost demo_env delete_post_req (snd (deletePost demo_env delete_post_req posts_store)))
       = Inr (text_response ''Post not found'' 404)
   \<and> fst (deleteMedia demo_env delete_media_req media_store) = Inr (HttpResponse NoBody 204 None)
   \<and> fst (deleteMedia demo_env delete_media_req (snd (deleteMedia demo_env delete_media_req media_store)))
       = Inr (text_response ''media not found'' 404)"
proof -
  have 1: "deletePost demo_env delete_post_req posts_store
             = (Inr (HttpResponse NoBody 204 None), snd (deletePost demo_env delete_post_req posts_store))"
    using demo_deletePost_done by (simp add: prod_eq_iff)
  have 2: "deleteMedia demo_env delete_media_req media_store
             = (Inr (HttpResponse NoBody 204 None), snd (deleteMedia demo_env delete_media_req media_store))"
    using demo_deleteMedia_done by (simp add: prod_eq_iff)
  have A: "fst (deletePost demo_env delete_post_req (snd (deletePost demo_env delete_post_req posts_store)))
       = Inr (text_response ''Post not found'' 404)"
    using second_delete_not_found[of demo_env demo_env delete_post_req posts_store
        "snd (deletePost demo_env delete_post_req posts_store)"] 1
    by simp
  have B: "fst (deleteMedia demo_env delete_media_req (snd (deleteMedia demo_env delete_media_req media_store)))
       = Inr (text_response ''media not found'' 404)"
    using second_delete_not_found[of demo_env demo_env delete_media_req media_store
        "snd (deleteMedia demo_env delete_media_req media_store)"] 2
    by simp
  from demo_deletePost_done demo_deleteMedia_done A B show ?thesis
    by simp
qed

end
